theory Spec2Isabelle
  imports Complex_Main
begin

section \<open>Conventions\<close>

text \<open>
  The development embeds \<^verbatim>\<open>src/src/pricer.py\<close>. Python floats are read as real numbers:
  a statement below is about exact real arithmetic, and rounding, overflow and NaN of IEEE
  doubles are outside the model, with one exception. The logit map of the joint fit is
  also read in double precision (\<open>fl\<close>, \<open>math_exp\<close>, \<open>inv_logit_d\<close>, \<open>calib_joint_d\<close>), every
  operation rounded to nearest and \<^verbatim>\<open>math.exp\<close> raising OverflowError: what the map returns
  at and near the ends of its interval is decided by rounding. A QuantLib date is its
  serial number, an integer. A Python exception is a value of type \<open>exn\<close>.
\<close>

type_synonym date = int

datatype exn = ValueError string | IndexError | ZeroDivisionError | OverflowError | QLError

section \<open>Closed-form basket prices\<close>

text \<open>
  \<^verbatim>\<open>math.erf\<close> is the error function, taken here by its Maclaurin series
  \<open>2/\<surd>\<pi> \<cdot> \<Sum> (-1)\<^sup>n x\<^bsup>2n+1\<^esup> / (n! (2n+1))\<close>.
\<close>

definition erf_term :: "real \<Rightarrow> nat \<Rightarrow> real" where
  "erf_term x n = (- 1) ^ n * x ^ (2 * n + 1) / (fact n * real (2 * n + 1))"

definition erf :: "real \<Rightarrow> real" where
  "erf x = 2 / sqrt pi * (\<Sum>n. erf_term x n)"

text \<open>\<^verbatim>\<open>bachelier_receiver\<close>, pricer.py lines 139-146.\<close>

definition bachelier_receiver :: "real \<Rightarrow> real \<Rightarrow> real \<Rightarrow> real \<Rightarrow> real \<Rightarrow> real" where
  "bachelier_receiver F K sigma T annuity =
     (if sigma \<le> 0 \<or> T \<le> 0 then annuity * max (K - F) 0
      else
        let std = sigma * sqrt T;
            d = (F - K) / std;
            phi = exp (- 0.5 * d * d) / sqrt (2 * pi);
            Phi_m = 0.5 * (1 + erf (- d / sqrt 2))
        in annuity * ((K - F) * Phi_m + std * phi))"

text \<open>\<^verbatim>\<open>bachelier_payer\<close>, pricer.py lines 149-156.\<close>

definition bachelier_payer :: "real \<Rightarrow> real \<Rightarrow> real \<Rightarrow> real \<Rightarrow> real \<Rightarrow> real" where
  "bachelier_payer F K sigma T annuity =
     (if sigma \<le> 0 \<or> T \<le> 0 then annuity * max (F - K) 0
      else
        let std = sigma * sqrt T;
            d = (F - K) / std;
            phi = exp (- 0.5 * d * d) / sqrt (2 * pi);
            Phi = 0.5 * (1 + erf (d / sqrt 2))
        in annuity * ((F - K) * Phi + std * phi))"

section \<open>Volatility surface interpolation\<close>

text \<open>\<^verbatim>\<open>np.clip(x, lo, hi)\<close> is \<^verbatim>\<open>minimum(maximum(x, lo), hi)\<close>.\<close>

definition np_clip :: "real \<Rightarrow> real \<Rightarrow> real \<Rightarrow> real" where
  "np_clip v lo hi = min (max v lo) hi"

text \<open>
  \<^verbatim>\<open>np.searchsorted(a, v)\<close> with the default \<^verbatim>\<open>side='left'\<close>: numpy's bisection between
  \<open>lo\<close> and \<open>hi\<close>, which moves \<open>lo\<close> past \<open>mid\<close> when \<open>a[mid] < v\<close> and pulls \<open>hi\<close> down to
  \<open>mid\<close> otherwise.
\<close>

function bisect_left :: "real list \<Rightarrow> real \<Rightarrow> nat \<Rightarrow> nat \<Rightarrow> nat" where
  "bisect_left arr v lo hi =
     (if lo < hi then
        (let mid = lo + (hi - lo) div 2
         in if arr ! mid < v then bisect_left arr v (mid + 1) hi
            else bisect_left arr v lo mid)
      else lo)"
  by pat_completeness auto
termination
  by (relation "measure (\<lambda>(arr, v, lo, hi). hi - lo)") auto

definition searchsorted :: "real list \<Rightarrow> real \<Rightarrow> nat" where
  "searchsorted arr v = bisect_left arr v 0 (length arr)"

text \<open>\<^verbatim>\<open>vol_mat[i, j]\<close>: numpy raises IndexError outside the matrix.\<close>

definition mat_at :: "real list list \<Rightarrow> nat \<Rightarrow> nat \<Rightarrow> exn + real" where
  "mat_at m i j =
     (if i < length m \<and> j < length (m ! i) then Inr (m ! i ! j) else Inl IndexError)"

definition ebind :: "exn + 'a \<Rightarrow> ('a \<Rightarrow> exn + 'b) \<Rightarrow> exn + 'b" where
  "ebind m f = (case m of Inl e \<Rightarrow> Inl e | Inr v \<Rightarrow> f v)"

text \<open>
  \<^verbatim>\<open>vol_interp\<close>, pricer.py lines 159-168. \<^verbatim>\<open>grid[0]\<close> and \<^verbatim>\<open>grid[-1]\<close> raise IndexError
  on an empty grid; all other grid reads are at indices below the grid's length.
\<close>

definition vol_interp ::
  "real \<Rightarrow> real \<Rightarrow> real list list \<Rightarrow> real list \<Rightarrow> real list \<Rightarrow> exn + real" where
  "vol_interp T tenor vol_mat expiry_grid tenor_grid =
     (if expiry_grid = [] \<or> tenor_grid = [] then Inl IndexError
      else
        let xc = np_clip T (hd expiry_grid) (last expiry_grid);
            yc = np_clip tenor (hd tenor_grid) (last tenor_grid);
            i1 = min (searchsorted expiry_grid xc) (length expiry_grid - 1);
            j1 = min (searchsorted tenor_grid yc) (length tenor_grid - 1);
            i0 = nat (max (int i1 - 1) 0);
            j0 = nat (max (int j1 - 1) 0);
            wx = (if expiry_grid ! i1 = expiry_grid ! i0 then 0
                  else (xc - expiry_grid ! i0) / (expiry_grid ! i1 - expiry_grid ! i0));
            wy = (if tenor_grid ! j1 = tenor_grid ! j0 then 0
                  else (yc - tenor_grid ! j0) / (tenor_grid ! j1 - tenor_grid ! j0))
        in ebind (mat_at vol_mat i0 j0) (\<lambda>v00.
           ebind (mat_at vol_mat i1 j0) (\<lambda>v10.
           ebind (mat_at vol_mat i0 j1) (\<lambda>v01.
           ebind (mat_at vol_mat i1 j1) (\<lambda>v11.
             Inr ((1 - wy) * ((1 - wx) * v00 + wx * v10)
                  + wy * ((1 - wx) * v01 + wx * v11)))))))"

section \<open>Curve validation in setup\<close>

datatype warning = DfAbove date real | NonMonotone date date

text \<open>
  \<^verbatim>\<open>BermudanPricer.setup\<close>, pricer.py lines 226-264. A raw curve entry is parsed by
  \<^verbatim>\<open>parse_date\<close> and \<^verbatim>\<open>float\<close>; an entry on which either raises is skipped, so the parser
  is a parameter returning \<open>None\<close> for such an entry.
\<close>

fun dedup_step :: "(date \<times> real) list \<Rightarrow> date \<times> real \<Rightarrow> (date \<times> real) list" where
  "dedup_step acc (dt, df) =
     (if acc \<noteq> [] \<and> dt = fst (last acc) then butlast acc @ [(dt, df)]
      else acc @ [(dt, df)])"

definition retained_nodes :: "date \<Rightarrow> (date \<times> real) list \<Rightarrow> (date \<times> real) list" where
  "retained_nodes val raw_pairs =
     foldl dedup_step [] (sort_key fst (filter (\<lambda>(dt, df). dt > val) raw_pairs))"

fun validate_dfs :: "(date \<times> real) list \<Rightarrow> exn + warning list" where
  "validate_dfs [] = Inr []"
| "validate_dfs ((dt, df) # ns) =
     (if df \<le> 0 then Inl (ValueError ''Discount factor <= 0'')
      else ebind (validate_dfs ns) (\<lambda>ws.
             Inr ((if df > 1.05 then [DfAbove dt df] else []) @ ws)))"

fun monotone_warnings :: "(date \<times> real) list \<Rightarrow> warning list" where
  "monotone_warnings (n1 # n2 # ns) =
     (if snd n2 > snd n1 + 1 / 10 ^ 6 then [NonMonotone (fst n1) (fst n2)] else [])
     @ monotone_warnings (n2 # ns)"
| "monotone_warnings ns = []"

definition setup_curve ::
  "('r \<Rightarrow> (date \<times> real) option) \<Rightarrow> date \<Rightarrow> 'r list
     \<Rightarrow> exn + (date list \<times> real list \<times> warning list)" where
  "setup_curve parse val curve =
     (let raw_pairs = List.map_filter parse curve;
          pairs = filter (\<lambda>(dt, df). dt > val) raw_pairs
      in if pairs = [] then Inl (ValueError ''No curve nodes after valuation date'')
         else
           let dedup = retained_nodes val raw_pairs
           in ebind (validate_dfs dedup) (\<lambda>ws.
                Inr (map fst dedup, map snd dedup, ws @ monotone_warnings dedup)))"

section \<open>Global state, exceptions and external calls\<close>

text \<open>
  \<^verbatim>\<open>ql.Settings.instance()\<close> is global mutable state; its \<^verbatim>\<open>evaluationDate\<close> is the only part
  the pricer writes. The rest of the world (whatever QuantLib keeps besides) is the
  record's extension. A computation takes the world and returns either an exception or a
  value, with the world it leaves behind.
\<close>

record settings =
  evaluationDate :: date

type_synonym ('w, 'r) io = "'w settings_scheme \<Rightarrow> (exn + 'r) \<times> 'w settings_scheme"

definition ret :: "'r \<Rightarrow> ('w, 'r) io" where
  "ret v = (\<lambda>w. (Inr v, w))"

definition throw :: "exn \<Rightarrow> ('w, 'r) io" where
  "throw e = (\<lambda>w. (Inl e, w))"

definition lift :: "exn + 'r \<Rightarrow> ('w, 'r) io" where
  "lift r = (\<lambda>w. (r, w))"

definition bnd :: "('w, 'a) io \<Rightarrow> ('a \<Rightarrow> ('w, 'b) io) \<Rightarrow> ('w, 'b) io" where
  "bnd m f = (\<lambda>w. case m w of (Inl e, w') \<Rightarrow> (Inl e, w') | (Inr v, w') \<Rightarrow> f v w')"

text \<open>\<^verbatim>\<open>try: m except: h\<close> and \<^verbatim>\<open>try: m finally: fin\<close>.\<close>

definition try_except :: "('w, 'a) io \<Rightarrow> (exn \<Rightarrow> ('w, 'a) io) \<Rightarrow> ('w, 'a) io" where
  "try_except m h = (\<lambda>w. case m w of (Inl e, w') \<Rightarrow> h e w' | (Inr v, w') \<Rightarrow> (Inr v, w'))"

definition try_finally ::
  "('w, 'a) io \<Rightarrow> ('w settings_scheme \<Rightarrow> 'w settings_scheme) \<Rightarrow> ('w, 'a) io" where
  "try_finally m fin = (\<lambda>w. case m w of (r, w') \<Rightarrow> (r, fin w'))"

text \<open>Float division raises ZeroDivisionError on a zero divisor.\<close>

definition py_div :: "real \<Rightarrow> real \<Rightarrow> ('w, real) io" where
  "py_div u v = (if v = 0 then throw ZeroDivisionError else ret (u / v))"

text \<open>A list comprehension whose element expression has effects.\<close>

primrec mapM :: "('a \<Rightarrow> ('w, 'b) io) \<Rightarrow> 'a list \<Rightarrow> ('w, 'b list) io" where
  "mapM f [] = ret []"
| "mapM f (y # ys) = bnd (f y) (\<lambda>v. bnd (mapM f ys) (\<lambda>vs. ret (v # vs)))"

text \<open>
  A call of \<^verbatim>\<open>scipy.optimize.minimize\<close> or \<^verbatim>\<open>brentq\<close> is a finite adaptive search: it
  evaluates the objective at a point, continues according to the value, and at last
  returns. An exception raised by the objective leaves the search at once.
\<close>

datatype ('p, 'r) search = Return 'r | Eval 'p "real \<Rightarrow> ('p, 'r) search"

primrec run_search :: "('p, 'r) search \<Rightarrow> ('p \<Rightarrow> ('w, real) io) \<Rightarrow> ('w, 'r) io" where
  "run_search (Return r) f = ret r"
| "run_search (Eval pt k) f = bnd (f pt) (\<lambda>v. run_search (k v) f)"

record 'p opt_result =
  res_x :: 'p
  res_success :: bool

text \<open>
  The external collaborators. \<open>'h\<close> is a curve handle (the handle and the curve it wraps
  are one value), \<open>'s\<close> a swap, \<open>'o\<close> a swaption, \<open>'g\<close> a pricing engine.
  \<^item> \<open>year_fraction\<close>: \<^verbatim>\<open>self.dc.yearFraction\<close>.
  \<^item> \<open>ql_build_swap ref dates dfs\<close>: \<^verbatim>\<open>build_curve\<close>, \<^verbatim>\<open>get_index\<close>, \<^verbatim>\<open>make_schedule\<close>,
    \<^verbatim>\<open>make_ois\<close> at the deal's strike and \<^verbatim>\<open>setPricingEngine\<close> (lines 477-482, 493-498).
  \<^item> \<open>ql_make_ois h\<close>: \<^verbatim>\<open>make_ois\<close> and \<^verbatim>\<open>setPricingEngine\<close> of \<^verbatim>\<open>_build_berm\<close>.
  \<^item> \<open>ql_berm_swaption s dates\<close>: \<^verbatim>\<open>make_swaption(s, ql.BermudanExercise(dates))\<close>.
  \<^item> \<open>ql_price_berm h swpt a sigma\<close>: the body of \<^verbatim>\<open>_price_berm\<close>, the valuation oracle
    for the full instrument.
  \<^item> \<open>ql_swap_npv s\<close>: \<^verbatim>\<open>float(s.NPV())\<close>.
  \<^item> \<open>ql_sub_swap h ex\<close>: lines 319-338 of \<^verbatim>\<open>_build_basket\<close>; it returns the fair
    rate, \<^verbatim>\<open>fixedLegBPS\<close> and the sub-swap at the strike.
  \<^item> \<open>ql_euro_swaption sk ex\<close>: \<^verbatim>\<open>ql.Swaption(sk, ql.EuropeanExercise(ex))\<close>.
  \<^item> \<open>ql_hw_engine h a sigma\<close>: \<^verbatim>\<open>ql.FdHullWhiteSwaptionEngine(ql.HullWhite(h, a, sigma), ...)\<close>.
  \<^item> \<open>ql_engine_npv swpt eng\<close>: \<^verbatim>\<open>swpt.setPricingEngine(eng)\<close>, then \<^verbatim>\<open>swpt.NPV()\<close>.
  \<^item> \<open>ql_discount h d\<close>: \<^verbatim>\<open>self.yts_c.discount(d)\<close>.
  \<^item> \<open>minimize1 x0 maxiter\<close>, \<open>minimize2 x0 maxiter\<close>: Nelder-Mead on one and on two
    variables; the result has the shape of \<open>x0\<close>.
  \<^item> \<open>brentq lo hi\<close>: the bracketed root finder, which may itself raise.
\<close>

record ('w, 'h, 's, 'o, 'g) quantlib =
  year_fraction :: "date \<Rightarrow> date \<Rightarrow> real"
  ql_build_swap :: "date \<Rightarrow> date list \<Rightarrow> real list \<Rightarrow> ('w, 'h \<times> 's) io"
  ql_make_ois :: "'h \<Rightarrow> ('w, 's) io"
  ql_berm_swaption :: "'s \<Rightarrow> date list \<Rightarrow> ('w, 'o) io"
  ql_price_berm :: "'h \<Rightarrow> 'o \<Rightarrow> real \<Rightarrow> real \<Rightarrow> ('w, real) io"
  ql_swap_npv :: "'s \<Rightarrow> ('w, real) io"
  ql_sub_swap :: "'h \<Rightarrow> date \<Rightarrow> ('w, real \<times> real \<times> 's) io"
  ql_euro_swaption :: "'s \<Rightarrow> date \<Rightarrow> ('w, 'o) io"
  ql_hw_engine :: "'h \<Rightarrow> real \<Rightarrow> real \<Rightarrow> ('w, 'g) io"
  ql_engine_npv :: "'o \<Rightarrow> 'g \<Rightarrow> ('w, real) io"
  ql_discount :: "'h \<Rightarrow> date \<Rightarrow> ('w, real) io"
  minimize1 :: "real \<Rightarrow> nat \<Rightarrow> (real, real opt_result) search"
  minimize2 :: "real \<times> real \<Rightarrow> nat \<Rightarrow> (real \<times> real, (real \<times> real) opt_result) search"
  brentq :: "real \<Rightarrow> real \<Rightarrow> (real, exn + real) search"

section \<open>The pricer\<close>

text \<open>
  The fields of \<^verbatim>\<open>BermudanPricer\<close> that \<^verbatim>\<open>__init__\<close> and \<^verbatim>\<open>setup\<close> assign and the
  calibration and Greek code reads. \<open>self_a\<close> is \<^verbatim>\<open>self.a\<close>.
\<close>

record 'h pricer =
  val_date :: date
  strike :: real
  is_receiver :: bool
  swap_end :: date
  self_a :: real
  calib_a :: bool
  dv01_bp :: real
  gamma_bp :: real
  vega_bp :: real
  do_theta :: bool
  bbg_npv :: real
  vol_mat :: "real list list"
  exp_grid :: "real list"
  tnr_grid :: "real list"
  node_dates :: "date list"
  node_dfs :: "real list"
  ex_dates :: "date list"
  yts_h :: 'h

text \<open>A basket entry, the dict of line 347.\<close>

record 'o basket_entry =
  it_fwd :: real
  it_vol :: real
  it_T :: real
  it_ann :: real
  it_swpt :: 'o
  it_mkt :: real

text \<open>The fields \<^verbatim>\<open>calibrate\<close> assigns.\<close>

record 'o calibration =
  basket :: "'o basket_entry list"
  sigma_atm :: real
  sigma_inv :: real
  delta_spread :: real
  sigma_total :: real
  berm :: 'o
  npv :: real

text \<open>The dict \<^verbatim>\<open>self.greeks\<close>.\<close>

record greeks =
  dv01 :: real
  gamma_1bp :: real
  vega_1bp :: real
  theta_1d :: real
  delta_hedge :: real
  underlying_dv01 :: real

text \<open>
  The web interface's target, app.py line 402:
  \<^verbatim>\<open>float(cfg.get("benchmark",{}).get("npv",0))\<close>; \<open>None\<close> is a request with no target.
\<close>

definition api_bbg_npv :: "real option \<Rightarrow> real" where
  "api_bbg_npv cfg_npv = (case cfg_npv of None \<Rightarrow> 0 | Some v \<Rightarrow> v)"

text \<open>The truth value of a float in a condition: false exactly at zero.\<close>

definition truthy :: "real \<Rightarrow> bool" where
  "truthy v = (v \<noteq> 0)"

subsection \<open>Basket\<close>

text \<open>\<^verbatim>\<open>_bachelier\<close>, lines 307-311.\<close>

definition bachelier :: "'h pricer \<Rightarrow> real \<Rightarrow> real \<Rightarrow> real \<Rightarrow> real \<Rightarrow> real" where
  "bachelier p f v t an =
     (if is_receiver p then bachelier_receiver f (strike p) v t an
      else bachelier_payer f (strike p) v t an)"

text \<open>\<^verbatim>\<open>_build_basket\<close>, lines 313-348, called with the default handle and index.\<close>

definition build_basket ::
  "('w, 'h, 's, 'o, 'g) quantlib \<Rightarrow> 'h pricer \<Rightarrow> real \<Rightarrow> ('w, 'o basket_entry list) io" where
  "build_basket q p vol_bump_bp =
     mapM (\<lambda>ex.
       bnd (ql_sub_swap q (yts_h p) ex) (\<lambda>(f, bps, sk).
         let an = \<bar>bps\<bar> / (1 / 10 ^ 4);
             t = year_fraction q (val_date p) ex;
             tenY = year_fraction q ex (swap_end p)
         in bnd (lift (vol_interp t tenY (vol_mat p) (exp_grid p) (tnr_grid p))) (\<lambda>v0.
              let v = v0 + vol_bump_bp / 10000
              in bnd (ql_euro_swaption q sk ex) (\<lambda>sw.
                   ret \<lparr>it_fwd = f, it_vol = v, it_T = t, it_ann = an, it_swpt = sw,
                        it_mkt = bachelier p f v t an\<rparr>))))
       (ex_dates p)"

subsection \<open>Calibration\<close>

text \<open>
  The error sum of both objectives (lines 355-356 and 385-390): for each entry, price the
  sub-option with the engine and add the squared error over \<open>max(1, |mkt|)\<close>.
\<close>

primrec sq_err_sum ::
  "('w, 'h, 's, 'o, 'g) quantlib \<Rightarrow> 'g \<Rightarrow> 'o basket_entry list \<Rightarrow> real \<Rightarrow> ('w, real) io" where
  "sq_err_sum q eng [] err = ret err"
| "sq_err_sum q eng (it # its) err =
     bnd (ql_engine_npv q (it_swpt it) eng) (\<lambda>model.
       sq_err_sum q eng its (err + (model - it_mkt it)\<^sup>2 / max 1 \<bar>it_mkt it\<bar>))"

text \<open>\<^verbatim>\<open>_calib_sigma_atm\<close>, lines 350-361: the objective has no exception handler.\<close>

definition obj_atm ::
  "('w, 'h, 's, 'o, 'g) quantlib \<Rightarrow> 'h pricer \<Rightarrow> 'h \<Rightarrow> 'o basket_entry list \<Rightarrow> real
     \<Rightarrow> ('w, real) io" where
  "obj_atm q p h bk x0 =
     (let sigma = 1 / 10 ^ 8 + exp x0
      in bnd (ql_hw_engine q h (self_a p) sigma) (\<lambda>eng. sq_err_sum q eng bk 0))"

definition calib_sigma_atm ::
  "('w, 'h, 's, 'o, 'g) quantlib \<Rightarrow> 'h pricer \<Rightarrow> 'h \<Rightarrow> 'o basket_entry list \<Rightarrow> ('w, real) io" where
  "calib_sigma_atm q p h bk =
     bnd (run_search (minimize1 q (ln 0.005) 500) (obj_atm q p h bk)) (\<lambda>res.
       ret (1 / 10 ^ 8 + exp (res_x res)))"

text \<open>
  \<^verbatim>\<open>_calib_joint\<close>, lines 363-403, in exact arithmetic. The reading in doubles is
  \<open>calib_joint_d\<close>, in the subsection on the joint fit in double precision.
\<close>

definition A_MIN :: real where
  "A_MIN = 0.001"

definition A_MAX :: real where
  "A_MAX = 0.50"

definition logit :: "real \<Rightarrow> real" where
  "logit a =
     (let t = (a - A_MIN) / (A_MAX - A_MIN);
          t = max (1 / 10 ^ 10) (min (1 - 1 / 10 ^ 10) t)
      in ln (t / (1 - t)))"

definition inv_logit :: "real \<Rightarrow> real" where
  "inv_logit x = (let t = 1 / (1 + exp (- x)) in A_MIN + t * (A_MAX - A_MIN))"

definition obj_joint ::
  "('w, 'h, 's, 'o, 'g) quantlib \<Rightarrow> 'h \<Rightarrow> 'o basket_entry list \<Rightarrow> real \<times> real
     \<Rightarrow> ('w, real) io" where
  "obj_joint q h bk x =
     (let a_val = inv_logit (fst x);
          sigma = 1 / 10 ^ 8 + exp (snd x)
      in try_except
           (bnd (ql_hw_engine q h a_val sigma) (\<lambda>eng. sq_err_sum q eng bk 0))
           (\<lambda>e. ret (10 ^ 20)))"

definition calib_joint ::
  "('w, 'h, 's, 'o, 'g) quantlib \<Rightarrow> 'h \<Rightarrow> 'o basket_entry list \<Rightarrow> ('w, real \<times> real) io" where
  "calib_joint q h bk =
     bnd (run_search (minimize2 q (logit 0.03, ln 0.005) 1500) (obj_joint q h bk)) (\<lambda>res.
       let a_cal = inv_logit (fst (res_x res));
           sigma_cal = 1 / 10 ^ 8 + exp (snd (res_x res))
       in ret (a_cal, sigma_cal))"

text \<open>\<^verbatim>\<open>_build_berm\<close> with its defaults, lines 293-300.\<close>

definition build_berm ::
  "('w, 'h, 's, 'o, 'g) quantlib \<Rightarrow> 'h pricer \<Rightarrow> ('w, 's \<times> 'o) io" where
  "build_berm q p =
     bnd (ql_make_ois q (yts_h p)) (\<lambda>s.
       bnd (ql_berm_swaption q s (ex_dates p)) (\<lambda>sw. ret (s, sw)))"

text \<open>\<^verbatim>\<open>_price_berm\<close>, lines 302-305.\<close>

definition price_berm ::
  "('w, 'h, 's, 'o, 'g) quantlib \<Rightarrow> 'h pricer \<Rightarrow> 'h \<Rightarrow> 'o \<Rightarrow> real \<Rightarrow> ('w, real) io" where
  "price_berm q p h swpt sigma = ql_price_berm q h swpt (self_a p) sigma"

text \<open>
  \<^verbatim>\<open>_inverse_solve\<close>, lines 405-414. The bare \<^verbatim>\<open>except\<close> catches what the root finder and
  what the objective raise; the fallback's objective has no handler.
\<close>

definition inverse_f ::
  "('w, 'h, 's, 'o, 'g) quantlib \<Rightarrow> 'h pricer \<Rightarrow> real \<Rightarrow> real \<Rightarrow> ('w, real) io" where
  "inverse_f q p target log_s =
     bnd (build_berm q p) (\<lambda>(s, sw).
       bnd (price_berm q p (yts_h p) sw (exp log_s)) (\<lambda>v. ret (v - target)))"

definition inverse_solve ::
  "('w, 'h, 's, 'o, 'g) quantlib \<Rightarrow> 'h pricer \<Rightarrow> real \<Rightarrow> ('w, real) io" where
  "inverse_solve q p target =
     try_except
       (bnd (run_search (brentq q (ln 0.001) (ln 0.05)) (inverse_f q p target)) (\<lambda>r.
          bnd (lift r) (\<lambda>root. ret (exp root))))
       (\<lambda>e. bnd (run_search (minimize1 q (ln 0.007) 300)
                    (\<lambda>x0. bnd (inverse_f q p target x0) (\<lambda>v. ret (v\<^sup>2)))) (\<lambda>res.
               ret (exp (res_x res))))"

text \<open>
  \<^verbatim>\<open>calibrate\<close>, lines 416-467. Step 1 (lines 418-430) returns the pricer, whose \<open>self_a\<close>
  the joint fit overwrites, the basket and the ATM volatility. Console output is left out.
\<close>

definition atm_stage ::
  "('w, 'h, 's, 'o, 'g) quantlib \<Rightarrow> 'h pricer
     \<Rightarrow> ('w, 'h pricer \<times> 'o basket_entry list \<times> real) io" where
  "atm_stage q p =
     bnd (build_basket q p 0) (\<lambda>bk.
       if calib_a p then
         bnd (calib_joint q (yts_h p) bk) (\<lambda>(a_cal, sigma_cal).
           ret (p\<lparr>self_a := a_cal\<rparr>, bk, sigma_cal))
       else
         bnd (calib_sigma_atm q p (yts_h p) bk) (\<lambda>sg. ret (p, bk, sg)))"

definition calibrate ::
  "('w, 'h, 's, 'o, 'g) quantlib \<Rightarrow> 'h pricer \<Rightarrow> ('w, 'h pricer \<times> 'o calibration) io" where
  "calibrate q p =
     bnd (atm_stage q p) (\<lambda>(p1, bk, sg_atm).
     bnd (build_berm q p1) (\<lambda>(s0, berm_atm).
     bnd (price_berm q p1 (yts_h p1) berm_atm sg_atm) (\<lambda>npv_atm.
       if \<not> truthy (bbg_npv p1) then
         bnd (build_berm q p1) (\<lambda>(s1, bm).
         bnd (price_berm q p1 (yts_h p1) bm sg_atm) (\<lambda>pv.
           ret (p1, \<lparr>basket = bk, sigma_atm = sg_atm, sigma_inv = sg_atm,
                     delta_spread = 0, sigma_total = sg_atm, berm = bm, npv = pv\<rparr>)))
       else
         bnd (inverse_solve q p1 (bbg_npv p1)) (\<lambda>sg_inv.
         bnd (build_berm q p1) (\<lambda>(s1, bm).
         bnd (price_berm q p1 (yts_h p1) bm sg_inv) (\<lambda>pv.
           ret (p1, \<lparr>basket = bk, sigma_atm = sg_atm, sigma_inv = sg_inv,
                     delta_spread = sg_inv - sg_atm, sigma_total = sg_inv,
                     berm = bm, npv = pv\<rparr>)))))))"

text \<open>
  How the target reaches the pricer. \<^verbatim>\<open>fetch_all\<close> (bbg_fetcher.py lines 365-368) reads
  \<^verbatim>\<open>benchmark.npv\<close> and raises ValueError when it is absent; \<^verbatim>\<open>pricer.py\<close>'s \<^verbatim>\<open>main\<close> and
  \<^verbatim>\<open>run_and_export.py\<close> call it before they build the pricer. The web interface
  (app.py line 402) defaults an absent target to 0 instead. In both, \<open>p\<close> is the pricer as
  \<^verbatim>\<open>__init__\<close> and \<^verbatim>\<open>setup\<close> leave it, up to the target.
\<close>

definition fetch_bbg_npv :: "real option \<Rightarrow> exn + real" where
  "fetch_bbg_npv cfg_npv =
     (case cfg_npv of
        None \<Rightarrow> Inl (ValueError ''benchmark.npv is required in config'')
      | Some v \<Rightarrow> Inr v)"

definition cli_calibrate ::
  "('w, 'h, 's, 'o, 'g) quantlib \<Rightarrow> 'h pricer \<Rightarrow> real option
     \<Rightarrow> ('w, 'h pricer \<times> 'o calibration) io" where
  "cli_calibrate q p cfg_npv =
     bnd (lift (fetch_bbg_npv cfg_npv)) (\<lambda>v. calibrate q (p\<lparr>bbg_npv := v\<rparr>))"

definition api_calibrate ::
  "('w, 'h, 's, 'o, 'g) quantlib \<Rightarrow> 'h pricer \<Rightarrow> real option
     \<Rightarrow> ('w, 'h pricer \<times> 'o calibration) io" where
  "api_calibrate q p cfg_npv = calibrate q (p\<lparr>bbg_npv := api_bbg_npv cfg_npv\<rparr>)"

subsection \<open>The joint fit in double precision\<close>

text \<open>
  An IEEE 754 binary64 number is an integer multiple of \<open>2\<^bsup>e-52\<^esup>\<close>, where \<open>e\<close> is the binary
  exponent of its magnitude and at least \<open>-1022\<close> (below that the spacing stays
  \<open>2\<^bsup>-1074\<^esup>\<close>: gradual underflow). \<open>fl r\<close> is the real \<open>r\<close> rounded to the nearest such
  multiple, ties to the even one: the result of a float operation whose exact result is
  \<open>r\<close>. \<open>fl\<close> has no upper limit; an operation that can exceed the largest double tests
  for it before it rounds (\<open>math_exp\<close> below).
\<close>

definition round_even :: "real \<Rightarrow> int" where
  "round_even r =
     (let f = \<lfloor>r\<rfloor>; t = r - of_int f
      in if t < 1 / 2 then f else if 1 / 2 < t then f + 1 else if even f then f else f + 1)"

definition binade :: "real \<Rightarrow> int" where
  "binade r = \<lfloor>log 2 \<bar>r\<bar>\<rfloor>"

definition expo :: "real \<Rightarrow> int" where
  "expo r = max (binade r) (- 1022)"

definition fl :: "real \<Rightarrow> real" where
  "fl r = (if r = 0 then 0
           else let u = 2 powi (expo r - 52) in of_int (round_even (r / u)) * u)"

text \<open>
  \<^verbatim>\<open>math.exp\<close> in doubles, read as the correctly rounded exponential: it raises
  OverflowError when the rounded result is not finite, that is from
  \<open>2\<^bsup>1024\<^esup> - 2\<^bsup>970\<^esup>\<close>, the midpoint above the largest double; a result below the smallest
  subnormal is 0.0 and no error. \<^verbatim>\<open>math.log\<close> likewise, on its domain.
\<close>

definition math_exp :: "real \<Rightarrow> exn + real" where
  "math_exp y = (if 2 ^ 1024 - 2 ^ 970 \<le> exp y then Inl OverflowError else Inr (fl (exp y)))"



definition inv_logit_from :: "real \<Rightarrow> real" where
  "inv_logit_from e =
     (let t = fl (1 / fl (1 + e))
      in fl (fl A_MIN + fl (t * fl (fl A_MAX - fl A_MIN))))"

definition inv_logit_d :: "real \<Rightarrow> exn + real" where
  "inv_logit_d x = ebind (math_exp (- x)) (\<lambda>e. Inr (inv_logit_from e))"



subsection \<open>Greeks\<close>

text \<open>\<^verbatim>\<open>_bump_dfs\<close>, lines 469-471.\<close>

definition bump_dfs :: "('w, 'h, 's, 'o, 'g) quantlib \<Rightarrow> 'h pricer \<Rightarrow> real \<Rightarrow> real list" where
  "bump_dfs q p bp =
     map (\<lambda>(dt, d). d * exp (- bp / 10000 * year_fraction q (val_date p) dt))
       (zip (node_dates p) (node_dfs p))"

text \<open>\<^verbatim>\<open>_reprice_with_dfs\<close>, lines 473-490.\<close>

definition reprice_with_dfs ::
  "('w, 'h, 's, 'o, 'g) quantlib \<Rightarrow> 'h pricer \<Rightarrow> date \<Rightarrow> date \<Rightarrow> real list \<Rightarrow> real
     \<Rightarrow> ('w, real) io" where
  "reprice_with_dfs q p ref ev dfs sigma = (\<lambda>w.
     let saved = evaluationDate w
     in try_finally
          (bnd (ql_build_swap q ref (node_dates p) dfs) (\<lambda>(h, s).
             let ed = filter (\<lambda>d. d > ev) (ex_dates p)
             in if ed = [] then ret 0
                else bnd (ql_berm_swaption q s ed) (\<lambda>sw. price_berm q p h sw sigma)))
          (\<lambda>w'. w'\<lparr>evaluationDate := saved\<rparr>)
          (w\<lparr>evaluationDate := ev\<rparr>))"

text \<open>\<^verbatim>\<open>_swap_npv_bumped\<close>, lines 492-499.\<close>

definition swap_npv_bumped ::
  "('w, 'h, 's, 'o, 'g) quantlib \<Rightarrow> 'h pricer \<Rightarrow> real list \<Rightarrow> ('w, real) io" where
  "swap_npv_bumped q p dfs =
     bnd (ql_build_swap q (val_date p) (node_dates p) dfs) (\<lambda>(h, s). ql_swap_npv q s)"

text \<open>\<^verbatim>\<open>vega_bump\<close>, lines 530-538.\<close>

definition vega_bump ::
  "('w, 'h, 's, 'o, 'g) quantlib \<Rightarrow> 'h pricer \<Rightarrow> 'o calibration \<Rightarrow> real \<Rightarrow> ('w, real) io" where
  "vega_bump q p c bp =
     bnd (build_basket q p bp) (\<lambda>bk.
     bnd (if calib_a p then bnd (calib_joint q (yts_h p) bk) (\<lambda>(a_b, sg). ret sg)
          else calib_sigma_atm q p (yts_h p) bk) (\<lambda>sig_atm_b.
       let sig_total_b = sig_atm_b + delta_spread c
       in bnd (build_berm q p) (\<lambda>(s, sw). price_berm q p (yts_h p) sw sig_total_b)))"

text \<open>The Theta roll, lines 548-552.\<close>

definition theta_roll ::
  "('w, 'h, 's, 'o, 'g) quantlib \<Rightarrow> 'h pricer \<Rightarrow> 'o calibration \<Rightarrow> ('w, real) io" where
  "theta_roll q p c =
     (let nxt = val_date p + 1
      in bnd (ql_discount q (yts_h p) nxt) (\<lambda>dfn.
         bnd (mapM (\<lambda>d. bnd (ql_discount q (yts_h p) d) (\<lambda>v. py_div v dfn)) (node_dates p))
           (\<lambda>tdfs.
         bnd (reprice_with_dfs q p nxt nxt tdfs (sigma_total c)) (\<lambda>pt.
           ret (pt - npv c)))))"

text \<open>\<^verbatim>\<open>compute_greeks\<close>, lines 501-558.\<close>

definition compute_greeks ::
  "('w, 'h, 's, 'o, 'g) quantlib \<Rightarrow> 'h pricer \<Rightarrow> 'o calibration \<Rightarrow> ('w, greeks) io" where
  "compute_greeks q p c =
     (let ref = val_date p;
          sg = sigma_total c;
          up = bump_dfs q p (dv01_bp p);
          dn = bump_dfs q p (- dv01_bp p)
      in bnd (reprice_with_dfs q p ref ref up sg) (\<lambda>pu.
         bnd (reprice_with_dfs q p ref ref dn sg) (\<lambda>pd.
         bnd (py_div (pd - pu) (2 * dv01_bp p)) (\<lambda>dv.
         bnd (py_div (pu - 2 * npv c + pd) ((gamma_bp p)\<^sup>2)) (\<lambda>gm.
         bnd (swap_npv_bumped q p up) (\<lambda>su.
         bnd (swap_npv_bumped q p dn) (\<lambda>sd.
         bnd (py_div (sd - su) (2 * dv01_bp p)) (\<lambda>udv.
         bnd (if \<bar>udv\<bar> > 1 / 10 ^ 12 then py_div dv udv else ret 0) (\<lambda>dl.
         bnd (vega_bump q p c (vega_bp p)) (\<lambda>pv_up.
         bnd (vega_bump q p c (- vega_bp p)) (\<lambda>pv_dn.
         bnd (py_div (pv_up - pv_dn) (2 * vega_bp p)) (\<lambda>vg.
         bnd (if do_theta p then theta_roll q p c else ret 0) (\<lambda>th.
           ret \<lparr>dv01 = dv, gamma_1bp = gm, vega_1bp = vg, theta_1d = th,
                delta_hedge = dl, underlying_dv01 = udv\<rparr>)))))))))))))"

section \<open>A concrete market\<close>

text \<open>
  One instance of the external collaborators, used to run the model on concrete inputs.
  The curve has a single node one year after the valuation date; a swap and a swaption are
  the discount factors they were built on; the full instrument is worth
  \<open>10\<^sup>8 \<cdot> (ln df)\<^sup>2\<close> and the underlying swap \<open>- 10\<^sup>4 \<cdot> ln df\<close>; the optimiser evaluates
  its objective at the seed and returns the seed.
\<close>

definition example_ql :: "(unit, real list, real list, real list, real) quantlib" where
  "example_ql =
     \<lparr>year_fraction = (\<lambda>d1 d2. real_of_int (d2 - d1) / 365),
      ql_build_swap = (\<lambda>ref ds dfs. ret (dfs, dfs)),
      ql_make_ois = (\<lambda>h. ret h),
      ql_berm_swaption = (\<lambda>s ed. ret s),
      ql_price_berm = (\<lambda>h sw a sg. ret (10 ^ 8 * (ln (hd sw))\<^sup>2)),
      ql_swap_npv = (\<lambda>s. ret (- (10 ^ 4) * ln (hd s))),
      ql_sub_swap = (\<lambda>h ex. ret (0.03, 1, h)),
      ql_euro_swaption = (\<lambda>sk ex. ret sk),
      ql_hw_engine = (\<lambda>h a sg. ret sg),
      ql_engine_npv = (\<lambda>sw g. ret 0),
      ql_discount = (\<lambda>h d. ret 1),
      minimize1 = (\<lambda>x0 n. Eval x0 (\<lambda>v. Return \<lparr>res_x = x0, res_success = True\<rparr>)),
      minimize2 = (\<lambda>x0 n. Eval x0 (\<lambda>v. Return \<lparr>res_x = x0, res_success = True\<rparr>)),
      brentq = (\<lambda>lo hi. Eval lo (\<lambda>flo. Eval hi (\<lambda>fhi.
                 if flo * fhi > 0 then Return (Inl (ValueError ''f(a) and f(b) must have different signs''))
                 else Return (Inr lo))))\<rparr>"

definition example_pricer :: "real list pricer" where
  "example_pricer =
     \<lparr>val_date = 45000, strike = 0.03, is_receiver = True, swap_end = 46825,
      self_a = 0.03, calib_a = False, dv01_bp = 1, gamma_bp = 2, vega_bp = 1,
      do_theta = True, bbg_npv = 0, vol_mat = [[0.005]], exp_grid = [1], tnr_grid = [5],
      node_dates = [45365], node_dfs = [1], ex_dates = [45100], yts_h = [1]\<rparr>"

definition example_calibration :: "real list calibration" where
  "example_calibration =
     \<lparr>basket = [], sigma_atm = 0.005, sigma_inv = 0.005, delta_spread = 0,
      sigma_total = 0.005, berm = [1], npv = 0\<rparr>"

text \<open>
  The same market with a valuation oracle that raises: the engine cannot be built, and the
  full-instrument pricing raises after it has moved the global evaluation date.
\<close>

definition failing_ql :: "(unit, real list, real list, real list, real) quantlib" where
  "failing_ql =
     example_ql\<lparr>ql_hw_engine := (\<lambda>h a sg. throw QLError),
                ql_price_berm := (\<lambda>h sw a sg w. (Inl QLError, w\<lparr>evaluationDate := 0\<rparr>))\<rparr>"

text \<open>A deal whose only exercise date is the day after the valuation date.\<close>

definition expired_pricer :: "real list pricer" where
  "expired_pricer = example_pricer\<lparr>ex_dates := [45001]\<rparr>"

definition expired_calibration :: "real list calibration" where
  "expired_calibration = example_calibration\<lparr>npv := 250\<rparr>"

text \<open>
  The concrete market with a curve that is not flat: the discount factor at date \<open>d\<close> is
  \<open>exp (- (d - 45000) / 36500)\<close>, so that the curve rolled by one day prices the full
  instrument at \<open>10\<^sup>8 \<cdot> (91 / 9125)\<^sup>2\<close>.
\<close>

definition rolling_ql :: "(unit, real list, real list, real list, real) quantlib" where
  "rolling_ql =
     example_ql\<lparr>ql_discount := (\<lambda>h d. ret (exp (- real_of_int (d - 45000) / 36500)))\<rparr>"


section \<open>Helper facts\<close>

lemma erf_term_summable: "summable (erf_term x)"
proof (rule summable_comparison_test)
  show "summable (\<lambda>n. \<bar>x\<bar> * ((x\<^sup>2) ^ n / fact n))"
  proof (rule summable_mult)
    show "summable (\<lambda>n. (x\<^sup>2) ^ n / fact n)"
      using summable_exp[of "x\<^sup>2"] by (simp add: divide_inverse mult.commute)
  qed
  show "\<exists>N. \<forall>n\<ge>N. norm (erf_term x n) \<le> \<bar>x\<bar> * ((x\<^sup>2) ^ n / fact n)"
  proof (intro exI[of _ 0] allI impI)
    fix n :: nat
    have a: "norm (erf_term x n) = \<bar>x\<bar> * ((x\<^sup>2) ^ n / fact n) / real (2 * n + 1)"
      by (simp add: erf_term_def abs_mult power_abs power_mult power_even_abs)
    have "\<bar>x\<bar> * ((x\<^sup>2) ^ n / fact n) / real (2 * n + 1)
            \<le> \<bar>x\<bar> * ((x\<^sup>2) ^ n / fact n) / 1"
      by (rule divide_left_mono) auto
    then show "norm (erf_term x n) \<le> \<bar>x\<bar> * ((x\<^sup>2) ^ n / fact n)"
      using a by simp
  qed
qed

lemma erf_minus: "erf (- x) = - erf x"
proof -
  have "erf_term (- x) = (\<lambda>n. - erf_term x n)"
    by (rule ext) (simp add: erf_term_def)
  then show ?thesis
    by (simp add: erf_def suminf_minus[OF erf_term_summable])
qed

lemma bisect_left_at:
  assumes "sorted_wrt (<) arr" "i < length arr" "lo \<le> i" "i \<le> hi" "hi \<le> length arr"
  shows "bisect_left arr (arr ! i) lo hi = i"
  using assms
proof (induction arr "arr ! i" lo hi rule: bisect_left.induct)
  case (1 arr lo hi)
  show ?case
  proof (cases "lo < hi")
    case False
    with 1 show ?thesis by simp
  next
    case True
    define mid where "mid = lo + (hi - lo) div 2"
    have mid: "lo \<le> mid" "mid < hi" using True by (auto simp: mid_def)
    have lt: "arr ! mid < arr ! i \<longleftrightarrow> mid < i"
      using 1(3,4,7) mid
      by (metis sorted_wrt_nth_less less_le_trans not_less_iff_gr_or_eq order_less_asym order_less_irrefl)
    show ?thesis
    proof (cases "mid < i")
      case True
      then have "bisect_left arr (arr ! i) (mid + 1) hi = i"
        using 1(1)[OF \<open>lo < hi\<close> mid_def] 1(3-) lt mid
        by simp
      then show ?thesis using \<open>lo < hi\<close> lt True
        by (subst bisect_left.simps) (simp add: mid_def Let_def)
    next
      case False
      then have "bisect_left arr (arr ! i) lo mid = i"
        using 1(2)[OF \<open>lo < hi\<close> mid_def] 1(3-) lt mid
        by simp
      then show ?thesis using \<open>lo < hi\<close> lt False
        by (subst bisect_left.simps) (simp add: mid_def Let_def)
    qed
  qed
qed


lemma clip_at:
  assumes "sorted_wrt (<) g" "i < length g"
  shows "np_clip (g ! i) (hd g) (last g) = g ! i"
proof -
  have ne: "g \<noteq> []" using assms(2) by auto
  have s: "sorted g" using assms(1) by (rule strict_sorted_imp_sorted)
  have lo: "hd g \<le> g ! i"
    using sorted_nth_mono[OF s, of 0 i] assms(2) ne by (simp add: hd_conv_nth)
  have hi: "g ! i \<le> last g"
    using sorted_nth_mono[OF s, of i "length g - 1"] assms(2) ne by (simp add: last_conv_nth)
  show ?thesis using lo hi by (simp add: np_clip_def)
qed

lemma axis_at:
  assumes "sorted_wrt (<) g" "i < length g"
    and xc_def: "xc = np_clip (g ! i) (hd g) (last g)"
    and i1_def: "i1 = min (searchsorted g xc) (length g - 1)"
    and i0_def: "i0 = nat (max (int i1 - 1) 0)"
    and w_def: "w = (if g ! i1 = g ! i0 then 0 else (xc - g ! i0) / (g ! i1 - g ! i0))"
  shows "i1 = i \<and> i0 < length g \<and> ((i0 = i \<and> w = 0) \<or> w = 1)"
proof -
  have xc: "xc = g ! i" unfolding xc_def by (rule clip_at[OF assms(1,2)])
  have ss: "searchsorted g xc = i"
    unfolding xc searchsorted_def using assms(1,2) by (intro bisect_left_at) auto
  have i1: "i1 = i" unfolding i1_def ss using assms(2) by simp
  show ?thesis
  proof (cases "i = 0")
    case True
    then have "i0 = 0" by (simp add: i0_def i1)
    then show ?thesis using xc i1 True assms(2) by (simp add: w_def)
  next
    case False
    then have i0: "i0 = i - 1" by (simp add: i0_def i1)
    have "g ! (i - 1) < g ! i"
      using sorted_wrt_nth_less[OF assms(1), of "i - 1" i] False assms(2) by simp
    then have "w = 1" by (simp add: w_def i1 i0 xc)
    then show ?thesis using xc i1 i0 assms(2) by simp
  qed
qed

lemma validate_dfs_fail_iff:
  "(\<exists>e. validate_dfs ns = Inl e) \<longleftrightarrow> (\<exists>n \<in> set ns. snd n \<le> 0)"
proof (induction ns)
  case Nil
  show ?case by simp
next
  case (Cons n ns)
  obtain dt df where n: "n = (dt, df)" by (cases n)
  show ?case
  proof (cases "df \<le> 0")
    case True
    then show ?thesis by (simp add: n)
  next
    case False
    then show ?thesis using Cons.IH
      by (cases "validate_dfs ns") (auto simp: n ebind_def)
  qed
qed

lemma validate_dfs_ok:
  "\<not> (\<exists>n \<in> set ns. snd n \<le> 0) \<Longrightarrow>
     \<exists>ws. validate_dfs ns = Inr ws \<and>
          set ws = {DfAbove dt df |dt df. (dt, df) \<in> set ns \<and> df > 1.05}"
proof (induction ns)
  case Nil
  show ?case by simp
next
  case (Cons n ns)
  obtain dt df where n: "n = (dt, df)" by (cases n)
  from Cons.prems have pos: "\<not> df \<le> 0" and rest: "\<not> (\<exists>n \<in> set ns. snd n \<le> 0)"
    by (auto simp: n)
  from Cons.IH[OF rest] obtain ws where ws: "validate_dfs ns = Inr ws"
    "set ws = {DfAbove dt df |dt df. (dt, df) \<in> set ns \<and> df > 1.05}" by blast
  have "validate_dfs (n # ns) = Inr ((if df > 1.05 then [DfAbove dt df] else []) @ ws)"
    using pos ws(1) by (simp add: n ebind_def)
  moreover have "set ((if df > 1.05 then [DfAbove dt df] else []) @ ws)
       = {DfAbove dt' df' |dt' df'. (dt', df') \<in> set (n # ns) \<and> df' > 1.05}"
    using ws(2) by (auto simp: n)
  ultimately show ?case by blast
qed

lemma bnd_ret: "bnd (ret v) f = f v"
  by (simp add: bnd_def ret_def)

lemma bnd_throw: "bnd (throw e) f = throw e"
  by (simp add: bnd_def throw_def)

lemma bnd_Inr:
  assumes "bnd m f w = (Inr r, w')"
  obtains v w1 where "m w = (Inr v, w1)" "f v w1 = (Inr r, w')"
  using assms by (auto simp: bnd_def split: prod.splits sum.splits)

lemma ret_Inr: "ret v w = (Inr r, w') \<Longrightarrow> r = v \<and> w' = w"
  by (auto simp: ret_def)

lemma reprice_keeps_date:
  "evaluationDate (snd (reprice_with_dfs q p ref ev dfs sg w)) = evaluationDate w"
  by (simp add: reprice_with_dfs_def try_finally_def Let_def split: prod.splits)

lemma reprice_after_build:
  assumes "ql_build_swap q ref (node_dates p) dfs (w\<lparr>evaluationDate := ev\<rparr>) = (Inr (h, s), w1)"
  shows "fst (reprice_with_dfs q p ref ev dfs sg w) =
           (if filter (\<lambda>d. d > ev) (ex_dates p) = [] then Inr 0
            else fst (bnd (ql_berm_swaption q s (filter (\<lambda>d. d > ev) (ex_dates p)))
                        (\<lambda>sw. price_berm q p h sw sg) w1))"
  using assms
  by (simp add: reprice_with_dfs_def try_finally_def Let_def bnd_def ret_def split: prod.splits)

lemma reprice_no_live_dates:
  assumes "filter (\<lambda>d. d > ev) (ex_dates p) = []"
    and "reprice_with_dfs q p ref ev dfs sg w = (Inr v, w')"
  shows "v = 0"
  using assms
  by (auto simp: reprice_with_dfs_def try_finally_def Let_def bnd_def ret_def
      split: prod.splits sum.splits)

lemma theta_roll_expired:
  assumes "filter (\<lambda>d. d > val_date p + 1) (ex_dates p) = []"
    and "theta_roll q p c w = (Inr th, w')"
  shows "th = 0 - npv c"
proof -
  from assms(2) obtain tdfs wb pt wc where
    d: "reprice_with_dfs q p (val_date p + 1) (val_date p + 1) tdfs (sigma_total c) wb = (Inr pt, wc)"
    and e: "ret (pt - npv c) wc = (Inr th, w')"
    unfolding theta_roll_def Let_def by (elim bnd_Inr) blast
  from reprice_no_live_dates[OF assms(1) d] have "pt = 0" .
  with ret_Inr[OF e] show ?thesis by simp
qed

lemma greeks_Inr:
  assumes "compute_greeks q p c w = (Inr g, w')"
  obtains pu pd w1 w2 wt where
    "reprice_with_dfs q p (val_date p) (val_date p) (bump_dfs q p (dv01_bp p)) (sigma_total c) w
       = (Inr pu, w1)"
    "reprice_with_dfs q p (val_date p) (val_date p) (bump_dfs q p (- dv01_bp p)) (sigma_total c) w1
       = (Inr pd, w2)"
    "gamma_bp p \<noteq> 0" "dv01_bp p \<noteq> 0"
    "gamma_1bp g = (pu - 2 * npv c + pd) / (gamma_bp p)\<^sup>2"
    "dv01 g = (pd - pu) / (2 * dv01_bp p)"
    "(if do_theta p then theta_roll q p c else ret 0) wt = (Inr (theta_1d g), w')"
proof -
  from assms obtain pu w1 pd w2 dv w3 gm w4 vg dl udv th w11 w12 where
    1: "reprice_with_dfs q p (val_date p) (val_date p) (bump_dfs q p (dv01_bp p)) (sigma_total c) w = (Inr pu, w1)"
    and 2: "reprice_with_dfs q p (val_date p) (val_date p) (bump_dfs q p (- dv01_bp p)) (sigma_total c) w1 = (Inr pd, w2)"
    and 3: "py_div (pd - pu) (2 * dv01_bp p) w2 = (Inr dv, w3)"
    and 4: "py_div (pu - 2 * npv c + pd) ((gamma_bp p)\<^sup>2) w3 = (Inr gm, w4)"
    and t: "(if do_theta p then theta_roll q p c else ret 0) w11 = (Inr th, w12)"
    and g: "ret \<lparr>dv01 = dv, gamma_1bp = gm, vega_1bp = vg, theta_1d = th,
                delta_hedge = dl, underlying_dv01 = udv\<rparr> w12 = (Inr g, w')"
    unfolding compute_greeks_def Let_def by (elim bnd_Inr) blast
  from ret_Inr[OF g] have g': "g = \<lparr>dv01 = dv, gamma_1bp = gm, vega_1bp = vg, theta_1d = th,
                delta_hedge = dl, underlying_dv01 = udv\<rparr>" and w12: "w' = w12" by auto
  from 3 have d0: "dv01_bp p \<noteq> 0" and dv: "dv = (pd - pu) / (2 * dv01_bp p)"
    by (auto simp: py_div_def throw_def ret_def split: if_splits)
  from 4 have g0: "gamma_bp p \<noteq> 0" and gm: "gm = (pu - 2 * npv c + pd) / (gamma_bp p)\<^sup>2"
    by (auto simp: py_div_def throw_def ret_def split: if_splits)
  show ?thesis
    by (rule that[OF 1 2 g0 d0, of w11]) (use g' gm dv t w12 in auto)
qed

lemma ex_fields:
  "year_fraction example_ql d1 d2 = real_of_int (d2 - d1) / 365"
  "ql_build_swap example_ql ref ds dfs = ret (dfs, dfs)"
  "ql_make_ois example_ql h = ret h"
  "ql_berm_swaption example_ql s ed = ret s"
  "ql_price_berm example_ql h sw a sg = ret (10 ^ 8 * (ln (hd sw))\<^sup>2)"
  "ql_swap_npv example_ql s = ret (- (10 ^ 4) * ln (hd s))"
  "ql_sub_swap example_ql h ex = ret (0.03, 1, h)"
  "ql_euro_swaption example_ql sk ex = ret sk"
  "ql_hw_engine example_ql h a sg = ret sg"
  "ql_engine_npv example_ql sw g = ret 0"
  "ql_discount example_ql h d = ret 1"
  "minimize1 example_ql x0 n = Eval x0 (\<lambda>v. Return \<lparr>res_x = x0, res_success = True\<rparr>)"
  "minimize2 example_ql y0 n = Eval y0 (\<lambda>v. Return \<lparr>res_x = y0, res_success = True\<rparr>)"
  by (simp_all add: example_ql_def)

lemma ex_pricer:
  "val_date example_pricer = 45000" "dv01_bp example_pricer = 1"
  "gamma_bp example_pricer = 2" "vega_bp example_pricer = 1" "do_theta example_pricer"
  "node_dates example_pricer = [45365]" "node_dfs example_pricer = [1]"
  "ex_dates example_pricer = [45100]" "yts_h example_pricer = [1]"
  "\<not> calib_a example_pricer" "swap_end example_pricer = 46825"
  "vol_mat example_pricer = [[0.005]]" "exp_grid example_pricer = [1]"
  "tnr_grid example_pricer = [5]"
  by (simp_all add: example_pricer_def)

lemma ex_calibration:
  "npv example_calibration = 0" "delta_spread example_calibration = 0"
  "sigma_total example_calibration = 0.005"
  by (simp_all add: example_calibration_def)

lemma ret_apply: "ret v w = (Inr v, w)"
  by (simp add: ret_def)

lemma bnd_lift_Inr: "bnd (lift (Inr v)) f = f v"
  by (simp add: bnd_def lift_def)

lemma try_finally_ret: "try_finally (ret v) fin w = (Inr v, fin w)"
  by (simp add: try_finally_def ret_def)

lemma ex_bump: "bump_dfs example_ql example_pricer bp = [exp (- bp / 10000)]"
  by (simp add: bump_dfs_def ex_fields ex_pricer)

lemma ex_reprice:
  "ev < 45100 \<Longrightarrow>
   reprice_with_dfs example_ql example_pricer ref ev [exp x] sg w = (Inr (10 ^ 8 * x\<^sup>2), w)"
  by (simp add: reprice_with_dfs_def price_berm_def ex_fields ex_pricer bnd_ret try_finally_ret)

lemma ex_swap: "swap_npv_bumped example_ql example_pricer [exp x] = ret (- (10 ^ 4) * x)"
  by (simp add: swap_npv_bumped_def ex_fields bnd_ret)

lemma ex_basket: "\<exists>bk. build_basket example_ql example_pricer bp = ret bk"
  by (simp add: build_basket_def ex_fields ex_pricer bnd_ret Let_def
      vol_interp_def mat_at_def ebind_def bnd_lift_Inr) blast

lemma ex_sq_err: "\<exists>v. sq_err_sum example_ql eng bk err = ret v"
  by (induction bk arbitrary: err) (auto simp: ex_fields bnd_ret)

lemma ex_calib_atm: "calib_sigma_atm example_ql p h bk = ret (1 / 10 ^ 8 + 0.005)"
proof -
  obtain v where v: "sq_err_sum example_ql (1 / 10 ^ 8 + exp (ln 0.005)) bk 0 = ret v"
    using ex_sq_err by blast
  show ?thesis
    unfolding calib_sigma_atm_def obj_atm_def Let_def ex_fields run_search.simps bnd_ret v
    by simp
qed

lemma ex_vega: "vega_bump example_ql example_pricer example_calibration bp = ret 0"
proof -
  obtain bk where bk: "build_basket example_ql example_pricer bp = ret bk"
    using ex_basket by blast
  show ?thesis
    unfolding vega_bump_def bk bnd_ret
    by (simp add: ex_calib_atm bnd_ret build_berm_def price_berm_def ex_fields ex_pricer)
qed

lemma ex_theta:
  "theta_roll example_ql example_pricer example_calibration w = (Inr 0, w)"
proof -
  have r: "bnd (reprice_with_dfs example_ql example_pricer 45001 45001 [1] sg) f w0
        = f 0 w0" for sg f w0
    using ex_reprice[of 45001 45001 0 sg w0] by (simp add: bnd_def)
  have "theta_roll example_ql example_pricer example_calibration w
      = bnd (reprice_with_dfs example_ql example_pricer 45001 45001 [1] 0.005)
          (\<lambda>pt. ret (pt - 0)) w"
    by (simp add: theta_roll_def Let_def ex_fields ex_pricer ex_calibration bnd_ret py_div_def)
  then show ?thesis by (simp only: r) (simp add: ret_apply)
qed

lemma ex_greeks:
  "compute_greeks example_ql example_pricer example_calibration w =
     (Inr \<lparr>dv01 = 0, gamma_1bp = 1 / 2, vega_1bp = 0, theta_1d = 0, delta_hedge = 0,
           underlying_dv01 = - 1\<rparr>, w)"
proof -
  have r: "bnd (reprice_with_dfs example_ql example_pricer 45000 45000 [exp x] sg) f w0
        = f (10 ^ 8 * x\<^sup>2) w0" for x sg f w0
    by (simp add: bnd_def ex_reprice)
  have t: "bnd (theta_roll example_ql example_pricer example_calibration) f w0 = f 0 w0" for f w0
    by (simp add: bnd_def ex_theta)
  have n: "(100000000 * (1 / 10000)\<^sup>2 :: real) = 1" by (simp add: power2_eq_square)
  show ?thesis
    unfolding compute_greeks_def Let_def ex_pricer ex_bump
    by (simp add: r ex_swap ex_vega bnd_ret py_div_def ex_calibration t ex_pricer ret_apply n)
qed

lemma fail_fields:
  "ql_hw_engine failing_ql h a sg = throw QLError"
  "ql_price_berm failing_ql h sw a sg w = (Inl QLError, w\<lparr>evaluationDate := 0\<rparr>)"
  "minimize1 failing_ql x0 n = minimize1 example_ql x0 n"
  "minimize2 failing_ql y0 n = minimize2 example_ql y0 n"
  "ql_build_swap failing_ql = ql_build_swap example_ql"
  "ql_berm_swaption failing_ql = ql_berm_swaption example_ql"
  "ql_make_ois failing_ql = ql_make_ois example_ql"
  "brentq failing_ql = brentq example_ql"
  by (simp_all add: failing_ql_def)

lemma bnd_throw_apply: "bnd (throw e) f w = (Inl e, w)"
  by (simp add: bnd_def throw_def)

lemma bnd_eq_Inr:
  "bnd m f w = (Inr r, w') \<longleftrightarrow> (\<exists>v w1. m w = (Inr v, w1) \<and> f v w1 = (Inr r, w'))"
  by (auto simp: bnd_def split: prod.splits sum.splits)

lemma ret_eq: "ret v w = (Inr r, w') \<longleftrightarrow> r = v \<and> w' = w"
  by (auto simp: ret_def)

lemma throw_apply: "throw e w = (Inl e, w)"
  by (simp add: throw_def)

lemma fail_calib_atm: "calib_sigma_atm failing_ql p h bk w = (Inl QLError, w)"
  by (simp add: calib_sigma_atm_def obj_atm_def fail_fields ex_fields bnd_throw Let_def throw_apply)

lemma try_except_throw: "try_except (throw e) hdl = hdl e"
  by (simp add: try_except_def throw_def)

lemma fail_obj_joint: "obj_joint failing_ql h bk x = ret (10 ^ 20)"
  by (simp add: obj_joint_def fail_fields bnd_throw try_except_throw Let_def)

lemma fail_calib_joint:
  "calib_joint failing_ql h bk = ret (inv_logit (logit 0.03), 1 / 10 ^ 8 + 0.005)"
  by (simp add: calib_joint_def fail_obj_joint fail_fields ex_fields bnd_ret Let_def)

lemma obj_joint_total: "\<exists>v w'. obj_joint q h bk x w = (Inr v, w')"
  by (simp add: obj_joint_def try_except_def Let_def ret_def split: prod.splits sum.splits)

lemma run_search_total:
  assumes "\<And>pt w. \<exists>v w'. f pt w = (Inr v, w')"
  shows "\<exists>r w'. run_search s f w = (Inr r, w')"
proof (induction s arbitrary: w)
  case (Return r)
  show ?case by (simp add: ret_def)
next
  case (Eval pt k)
  obtain v w1 where f: "f pt w = (Inr v, w1)" using assms by blast
  from Eval[of "k v" w1] obtain r w' where "run_search (k v) f w1 = (Inr r, w')" by auto
  then show ?case using f by (simp add: bnd_def)
qed

lemma calib_joint_total: "\<exists>r w'. calib_joint q h bk w = (Inr r, w')"
proof -
  obtain res w1 where r: "run_search (minimize2 q (logit 0.03, ln 0.005) 1500) (obj_joint q h bk) w = (Inr res, w1)"
    using run_search_total[where f = "obj_joint q h bk" and w = w
        and s = "minimize2 q (logit 0.03, ln 0.005) 1500"] obj_joint_total[of q h bk]
    by blast
  show ?thesis using r by (simp add: calib_joint_def bnd_def Let_def ret_def)
qed

lemma obj_joint_scores_failure:
  assumes "bnd (ql_hw_engine q h (inv_logit (fst x)) (1 / 10 ^ 8 + exp (snd x)))
             (\<lambda>eng. sq_err_sum q eng bk 0) w = (Inl e, w1)"
  shows "obj_joint q h bk x w = (Inr (10 ^ 20), w1)"
  using assms by (simp add: obj_joint_def try_except_def Let_def ret_def)

lemma inv_logit_bounds: "A_MIN < inv_logit x \<and> inv_logit x < A_MAX"
proof -
  define t where "t = 1 / (1 + exp (- x))"
  have e: "0 < exp (- x)" by simp
  have t0: "0 < t" unfolding t_def using e by (simp add: add_pos_pos)
  have t1: "t < 1" unfolding t_def using e by (simp add: add_pos_pos)
  have d: "0 < A_MAX - A_MIN" by (simp add: A_MAX_def A_MIN_def)
  have "0 < t * (A_MAX - A_MIN)" using t0 d by simp
  moreover have "t * (A_MAX - A_MIN) < 1 * (A_MAX - A_MIN)"
    using t1 d by (rule mult_strict_right_mono)
  ultimately show ?thesis by (simp add: inv_logit_def Let_def t_def[symmetric])
qed

lemma calib_joint_bounds:
  assumes "calib_joint q h bk w = (Inr (a_cal, sigma_cal), w')"
  shows "A_MIN < a_cal \<and> a_cal < A_MAX"
  using assms by (auto simp: calib_joint_def Let_def bnd_eq_Inr ret_eq inv_logit_bounds)

lemma atm_stage_Inr:
  assumes "atm_stage q p w = (Inr (p1, bk, sg), w')"
  shows "(calib_a p \<longrightarrow> (\<exists>a. p1 = p\<lparr>self_a := a\<rparr> \<and> A_MIN < a \<and> a < A_MAX)) \<and>
         (\<not> calib_a p \<longrightarrow> p1 = p)"
  using assms
  by (auto simp: atm_stage_def bnd_eq_Inr ret_eq split: if_splits prod.splits
      dest: calib_joint_bounds)

lemma calibrate_Inr:
  assumes "calibrate q p w = (Inr (p1, c), w')"
  shows "\<exists>bk sg wa. atm_stage q p w = (Inr (p1, bk, sg), wa) \<and> sigma_atm c = sg \<and>
           (\<not> truthy (bbg_npv p1) \<longrightarrow>
              (\<exists>bm pv w2. price_berm q p1 (yts_h p1) bm sg w2 = (Inr pv, w') \<and>
                 c = \<lparr>basket = bk, sigma_atm = sg, sigma_inv = sg, delta_spread = 0,
                      sigma_total = sg, berm = bm, npv = pv\<rparr>))"
  using assms
  by (auto simp: calibrate_def bnd_eq_Inr ret_eq split: if_splits prod.splits)

lemma calibrate_falsy_target:
  assumes "bbg_npv p = 0" "calibrate q p w = (Inr (p1, c), w')"
  shows "\<exists>bk wa. atm_stage q p w = (Inr (p1, bk, sigma_atm c), wa) \<and>
           sigma_inv c = sigma_atm c \<and> delta_spread c = 0 \<and> sigma_total c = sigma_atm c \<and>
           (\<exists>w2. price_berm q p1 (yts_h p1) (berm c) (sigma_total c) w2 = (Inr (npv c), w'))"
proof -
  from calibrate_Inr[OF assms(2)] obtain bk sg wa where
    a: "atm_stage q p w = (Inr (p1, bk, sg), wa)" and sg: "sigma_atm c = sg"
    and r: "\<not> truthy (bbg_npv p1) \<longrightarrow>
              (\<exists>bm pv w2. price_berm q p1 (yts_h p1) bm sg w2 = (Inr pv, w') \<and>
                 c = \<lparr>basket = bk, sigma_atm = sg, sigma_inv = sg, delta_spread = 0,
                      sigma_total = sg, berm = bm, npv = pv\<rparr>)"
    by blast
  have "bbg_npv p1 = 0" using atm_stage_Inr[OF a] assms(1) by (cases "calib_a p") auto
  then have f: "\<not> truthy (bbg_npv p1)" by (simp add: truthy_def)
  from r f obtain bm pv w2 where pr: "price_berm q p1 (yts_h p1) bm sg w2 = (Inr pv, w')"
    and c: "c = \<lparr>basket = bk, sigma_atm = sg, sigma_inv = sg, delta_spread = 0,
                      sigma_total = sg, berm = bm, npv = pv\<rparr>" by blast
  have "sigma_inv c = sg" "delta_spread c = 0" "sigma_total c = sg" "berm c = bm" "npv c = pv"
    by (simp_all add: c)
  with a sg pr show ?thesis by auto
qed

lemma bnd_cong_Inr:
  "(\<And>v w1. m w = (Inr v, w1) \<Longrightarrow> f v w1 = g v w1) \<Longrightarrow> bnd m f w = bnd m g w"
  by (simp add: bnd_def split: prod.splits sum.splits)

lemma calibrate_ignores_brentq:
  assumes "bbg_npv p = 0"
  shows "calibrate (q\<lparr>brentq := b\<rparr>) p w = calibrate q p w"
proof -
  have bb: "build_basket (q\<lparr>brentq := b\<rparr>) = build_basket q"
    by (intro ext) (simp add: build_basket_def)
  have sq: "sq_err_sum (q\<lparr>brentq := b\<rparr>) eng bk err = sq_err_sum q eng bk err" for eng bk err
    by (induction bk arbitrary: err) simp_all
  have oj: "obj_joint (q\<lparr>brentq := b\<rparr>) = obj_joint q"
    by (intro ext) (simp add: obj_joint_def sq)
  have oa: "obj_atm (q\<lparr>brentq := b\<rparr>) = obj_atm q"
    by (intro ext) (simp add: obj_atm_def sq)
  have cj: "calib_joint (q\<lparr>brentq := b\<rparr>) = calib_joint q"
    by (intro ext) (simp add: calib_joint_def oj)
  have ca: "calib_sigma_atm (q\<lparr>brentq := b\<rparr>) = calib_sigma_atm q"
    by (intro ext) (simp add: calib_sigma_atm_def oa)
  have am: "atm_stage (q\<lparr>brentq := b\<rparr>) = atm_stage q"
    by (intro ext) (simp add: atm_stage_def bb cj ca cong: if_cong)
  have be: "build_berm (q\<lparr>brentq := b\<rparr>) = build_berm q"
    by (intro ext) (simp add: build_berm_def)
  have pb: "price_berm (q\<lparr>brentq := b\<rparr>) = price_berm q"
    by (intro ext) (simp add: price_berm_def)
  show ?thesis
    unfolding calibrate_def am
  proof (rule bnd_cong_Inr, goal_cases)
    case (1 v w1)
    obtain p1 bk sg where v: "v = (p1, bk, sg)" by (cases v)
    have z: "bbg_npv p1 = 0" using atm_stage_Inr[of q p w p1 bk sg w1] assms 1 v
      by (cases "calib_a p") auto
    show ?case by (simp add: v z truthy_def be pb)
  qed
qed

lemma exp_pricer:
  "val_date expired_pricer = 45000" "dv01_bp expired_pricer = 1"
  "gamma_bp expired_pricer = 2" "vega_bp expired_pricer = 1" "do_theta expired_pricer"
  "node_dates expired_pricer = [45365]" "node_dfs expired_pricer = [1]"
  "ex_dates expired_pricer = [45001]" "yts_h expired_pricer = [1]"
  "\<not> calib_a expired_pricer" "swap_end expired_pricer = 46825"
  "vol_mat expired_pricer = [[0.005]]" "exp_grid expired_pricer = [1]"
  "tnr_grid expired_pricer = [5]"
  by (simp_all add: expired_pricer_def example_pricer_def)

lemma exp_calibration:
  "npv expired_calibration = 250" "delta_spread expired_calibration = 0"
  "sigma_total expired_calibration = 0.005"
  by (simp_all add: expired_calibration_def example_calibration_def)

lemma ex_reprice_any:
  "reprice_with_dfs example_ql p ref ev [exp x] sg w =
     (Inr (if filter (\<lambda>d. d > ev) (ex_dates p) = [] then 0 else 10 ^ 8 * x\<^sup>2), w)"
  by (simp add: reprice_with_dfs_def price_berm_def ex_fields bnd_ret try_finally_ret)

lemma ex_swap_any: "swap_npv_bumped example_ql p [exp x] = ret (- (10 ^ 4) * x)"
  by (simp add: swap_npv_bumped_def ex_fields bnd_ret)

lemma exp_bump: "bump_dfs example_ql expired_pricer bp = [exp (- bp / 10000)]"
  by (simp add: bump_dfs_def ex_fields exp_pricer)

lemma exp_basket: "\<exists>bk. build_basket example_ql expired_pricer bp = ret bk"
  by (simp add: build_basket_def ex_fields exp_pricer bnd_ret Let_def
      vol_interp_def mat_at_def ebind_def bnd_lift_Inr) blast

lemma exp_vega: "vega_bump example_ql expired_pricer c bp = ret 0"
proof -
  obtain bk where bk: "build_basket example_ql expired_pricer bp = ret bk"
    using exp_basket by blast
  show ?thesis
    unfolding vega_bump_def bk bnd_ret
    by (simp add: ex_calib_atm bnd_ret build_berm_def price_berm_def ex_fields exp_pricer)
qed

lemma exp_theta:
  "theta_roll example_ql expired_pricer expired_calibration w = (Inr (0 - 250), w)"
proof -
  have r: "bnd (reprice_with_dfs example_ql expired_pricer 45001 45001 [1] sg) f w0
        = f 0 w0" for sg f w0
    using ex_reprice_any[of expired_pricer 45001 45001 0 sg w0] by (simp add: bnd_def exp_pricer)
  have "theta_roll example_ql expired_pricer expired_calibration w
      = bnd (reprice_with_dfs example_ql expired_pricer 45001 45001 [1] 0.005)
          (\<lambda>pt. ret (pt - 250)) w"
    by (simp add: theta_roll_def Let_def ex_fields exp_pricer exp_calibration bnd_ret py_div_def)
  then show ?thesis by (simp only: r) (simp add: ret_apply)
qed

lemma exp_greeks:
  "compute_greeks example_ql expired_pricer expired_calibration w =
     (Inr \<lparr>dv01 = 0, gamma_1bp = - 498 / 4, vega_1bp = 0, theta_1d = - 250, delta_hedge = 0,
           underlying_dv01 = - 1\<rparr>, w)"
proof -
  have r: "bnd (reprice_with_dfs example_ql expired_pricer 45000 45000 [exp x] sg) f w0
        = f (10 ^ 8 * x\<^sup>2) w0" for x sg f w0
    by (simp add: bnd_def ex_reprice_any exp_pricer)
  have t: "bnd (theta_roll example_ql expired_pricer expired_calibration) f w0 = f (- 250) w0" for f w0
    by (simp add: bnd_def exp_theta)
  have n: "(100000000 * (1 / 10000)\<^sup>2 :: real) = 1" by (simp add: power2_eq_square)
  show ?thesis
    unfolding compute_greeks_def Let_def exp_pricer exp_bump
    by (simp add: r ex_swap_any exp_vega bnd_ret py_div_def exp_calibration t exp_pricer ret_apply n)
qed

lemma fail_fields2:
  "ql_sub_swap failing_ql = ql_sub_swap example_ql"
  "ql_euro_swaption failing_ql = ql_euro_swaption example_ql"
  "year_fraction failing_ql = year_fraction example_ql"
  by (simp_all add: failing_ql_def)

lemma fail_basket: "\<exists>bk. build_basket failing_ql example_pricer bp = ret bk"
  by (simp add: build_basket_def fail_fields2 ex_fields ex_pricer bnd_ret Let_def
      vol_interp_def mat_at_def ebind_def bnd_lift_Inr) blast

lemma fail_calibrate: "calibrate failing_ql example_pricer w = (Inl QLError, w)"
proof -
  obtain bk where bk: "build_basket failing_ql example_pricer 0 = ret bk"
    using fail_basket by blast
  have "atm_stage failing_ql example_pricer w = (Inl QLError, w)"
    by (simp add: atm_stage_def bk bnd_ret ex_pricer) (simp add: bnd_def fail_calib_atm)
  then show ?thesis by (simp add: calibrate_def bnd_def)
qed

lemma fail_inverse:
  "inverse_solve failing_ql example_pricer target w = (Inl QLError, w\<lparr>evaluationDate := 0\<rparr>)"
proof -
  have f: "inverse_f failing_ql example_pricer target x w0 = (Inl QLError, w0\<lparr>evaluationDate := 0\<rparr>)"
    for x w0
    by (simp add: inverse_f_def build_berm_def price_berm_def fail_fields ex_fields bnd_ret)
       (simp add: bnd_def fail_fields)
  show ?thesis
    by (simp add: inverse_solve_def try_except_def fail_fields ex_fields example_ql_def bnd_def f)
qed

lemma fail_reprice:
  "reprice_with_dfs failing_ql example_pricer 45000 45000 dfs sg w = (Inl QLError, w)"
  by (simp add: reprice_with_dfs_def price_berm_def fail_fields ex_fields ex_pricer bnd_ret
      try_finally_def)

lemma try_except_ret: "try_except (ret v) hdl = ret v"
  by (simp add: try_except_def ret_def)

lemma ex_obj_joint: "\<exists>v. obj_joint example_ql h bk x = ret v"
proof -
  obtain v where v: "sq_err_sum example_ql (1 / 10 ^ 8 + exp (snd x)) bk 0 = ret v"
    using ex_sq_err by blast
  have "obj_joint example_ql h bk x = ret v"
    unfolding obj_joint_def Let_def ex_fields bnd_ret v try_except_ret ..
  then show ?thesis ..
qed

lemma inv_logit_seed: "inv_logit (logit (3 / 100)) = 3 / 100"
  by (simp add: inv_logit_def logit_def A_MIN_def A_MAX_def Let_def exp_minus field_simps)

lemma ex_calib_joint:
  "calib_joint example_ql h bk = ret (0.03, 1 / 10 ^ 8 + 0.005)"
proof -
  obtain v where o: "obj_joint example_ql h bk (logit 0.03, ln 0.005) = ret v"
    using ex_obj_joint by blast
  show ?thesis
    unfolding calib_joint_def ex_fields run_search.simps o bnd_ret Let_def
    by (simp add: inv_logit_seed)
qed

lemma ex_calibrate:
  "\<exists>bk. calibrate example_ql example_pricer w =
     (Inr (example_pricer, \<lparr>basket = bk, sigma_atm = 1 / 10 ^ 8 + 0.005,
        sigma_inv = 1 / 10 ^ 8 + 0.005, delta_spread = 0, sigma_total = 1 / 10 ^ 8 + 0.005,
        berm = [1], npv = 0\<rparr>), w)"
proof -
  obtain bk where bk: "build_basket example_ql example_pricer 0 = ret bk"
    using ex_basket by blast
  have a: "atm_stage example_ql example_pricer = ret (example_pricer, bk, 1 / 10 ^ 8 + 0.005)"
    by (simp add: atm_stage_def bk bnd_ret ex_pricer ex_calib_atm)
  have b: "build_berm example_ql example_pricer = ret ([1], [1])"
    by (simp add: build_berm_def ex_fields ex_pricer bnd_ret)
  have pb: "price_berm example_ql example_pricer h [1] sg = ret 0" for h sg
    by (simp add: price_berm_def ex_fields)
  have z: "\<not> truthy (bbg_npv example_pricer)" by (simp add: truthy_def example_pricer_def)
  show ?thesis
    by (simp add: calibrate_def a bnd_ret b pb z ex_pricer ret_apply)
qed

lemma try_finally_eq:
  "try_finally m fin w = (r, w') \<longleftrightarrow> (\<exists>w1. m w = (r, w1) \<and> w' = fin w1)"
  by (auto simp: try_finally_def split: prod.splits)

lemma reprice_Inr_iff:
  "reprice_with_dfs q p ref ev dfs sg w = (Inr v, w') \<longleftrightarrow>
     (\<exists>h s w1. ql_build_swap q ref (node_dates p) dfs (w\<lparr>evaluationDate := ev\<rparr>) = (Inr (h, s), w1) \<and>
        (if filter (\<lambda>d. d > ev) (ex_dates p) = []
         then v = 0 \<and> w' = w1\<lparr>evaluationDate := evaluationDate w\<rparr>
         else \<exists>w2. bnd (ql_berm_swaption q s (filter (\<lambda>d. d > ev) (ex_dates p)))
                      (\<lambda>sw. price_berm q p h sw sg) w1 = (Inr v, w2) \<and>
                    w' = w2\<lparr>evaluationDate := evaluationDate w\<rparr>))"
proof (cases "filter (\<lambda>d. d > ev) (ex_dates p) = []")
  case True
  then show ?thesis
    by (simp add: reprice_with_dfs_def Let_def try_finally_eq bnd_eq_Inr ret_eq) blast
next
  case False
  then show ?thesis
    by (simp add: reprice_with_dfs_def Let_def try_finally_eq bnd_eq_Inr[where m = "ql_build_swap q ref (node_dates p) dfs"]) blast
qed

lemma theta_roll_Inr_iff:
  "theta_roll q p c w = (Inr th, w') \<longleftrightarrow>
     (\<exists>dfn wa tdfs wb pt.
        ql_discount q (yts_h p) (val_date p + 1) w = (Inr dfn, wa) \<and>
        mapM (\<lambda>d. bnd (ql_discount q (yts_h p) d) (\<lambda>v. py_div v dfn)) (node_dates p) wa
          = (Inr tdfs, wb) \<and>
        reprice_with_dfs q p (val_date p + 1) (val_date p + 1) tdfs (sigma_total c) wb
          = (Inr pt, w') \<and>
        th = pt - npv c)"
  by (auto simp: theta_roll_def Let_def bnd_eq_Inr ret_eq)

lemma greeks_theta:
  assumes "do_theta p" "compute_greeks q p c w = (Inr g, w')"
  shows "\<exists>wt. theta_roll q p c wt = (Inr (theta_1d g), w')"
  using greeks_Inr[OF assms(2)] assms(1) by (metis (full_types))

lemma discount_update:
  "bump_dfs (q\<lparr>ql_discount := f\<rparr>) = bump_dfs q"
  "reprice_with_dfs (q\<lparr>ql_discount := f\<rparr>) = reprice_with_dfs q"
  "swap_npv_bumped (q\<lparr>ql_discount := f\<rparr>) = swap_npv_bumped q"
  "vega_bump (q\<lparr>ql_discount := f\<rparr>) = vega_bump q"
proof -
  show "bump_dfs (q\<lparr>ql_discount := f\<rparr>) = bump_dfs q"
    by (intro ext) (simp add: bump_dfs_def)
  have pb: "price_berm (q\<lparr>ql_discount := f\<rparr>) = price_berm q"
    by (intro ext) (simp add: price_berm_def)
  show "reprice_with_dfs (q\<lparr>ql_discount := f\<rparr>) = reprice_with_dfs q"
    by (intro ext) (simp add: reprice_with_dfs_def pb Let_def cong: if_cong)
  show "swap_npv_bumped (q\<lparr>ql_discount := f\<rparr>) = swap_npv_bumped q"
    by (intro ext) (simp add: swap_npv_bumped_def)
  have bb: "build_basket (q\<lparr>ql_discount := f\<rparr>) = build_basket q"
    by (intro ext) (simp add: build_basket_def)
  have sq: "sq_err_sum (q\<lparr>ql_discount := f\<rparr>) eng bk err = sq_err_sum q eng bk err" for eng bk err
    by (induction bk arbitrary: err) simp_all
  have oj: "obj_joint (q\<lparr>ql_discount := f\<rparr>) = obj_joint q"
    by (intro ext) (simp add: obj_joint_def sq)
  have oa: "obj_atm (q\<lparr>ql_discount := f\<rparr>) = obj_atm q"
    by (intro ext) (simp add: obj_atm_def sq)
  have cj: "calib_joint (q\<lparr>ql_discount := f\<rparr>) = calib_joint q"
    by (intro ext) (simp add: calib_joint_def oj)
  have ca: "calib_sigma_atm (q\<lparr>ql_discount := f\<rparr>) = calib_sigma_atm q"
    by (intro ext) (simp add: calib_sigma_atm_def oa)
  have be: "build_berm (q\<lparr>ql_discount := f\<rparr>) = build_berm q"
    by (intro ext) (simp add: build_berm_def)
  show "vega_bump (q\<lparr>ql_discount := f\<rparr>) = vega_bump q"
    by (intro ext) (simp add: vega_bump_def bb cj ca be pb cong: if_cong)
qed

lemma rl_theta:
  assumes "val_date p = 45000" "node_dates p = [45365]" "yts_h p = hh"
    "sigma_total c = sg"
  shows "theta_roll rolling_ql p c w =
     (Inr ((if filter (\<lambda>d. d > 45001) (ex_dates p) = [] then 0 else 10 ^ 8 * (91 / 9125)\<^sup>2)
            - npv c), w)"
proof -
  have d: "ql_discount rolling_ql h dd = ret (exp (- real_of_int (dd - 45000) / 36500))" for h dd
    by (simp add: rolling_ql_def)
  have e: "exp (- (1 / 100)) / exp (- (1 / 36500)) = exp (- (91 / 9125 :: real))"
    by (simp add: exp_diff[symmetric])
  have r: "reprice_with_dfs rolling_ql = reprice_with_dfs example_ql"
    by (simp add: rolling_ql_def discount_update)
  have t: "theta_roll rolling_ql p c w
      = bnd (reprice_with_dfs example_ql p 45001 45001 [exp (- (91 / 9125))] sg)
          (\<lambda>pt. ret (pt - npv c)) w"
    by (simp add: theta_roll_def Let_def d assms bnd_ret py_div_def r e)
  show ?thesis
    unfolding t by (simp add: bnd_def ex_reprice_any ret_apply)
qed

lemma rl_greeks:
  assumes "val_date p = 45000" "node_dates p = [45365]" "node_dfs p = [1]" "yts_h p = [1]"
    "dv01_bp p = 1" "gamma_bp p = 2" "vega_bp p = 1" "do_theta p"
    "filter (\<lambda>d. d > 45000) (ex_dates p) \<noteq> []"
    "\<And>bp. vega_bump example_ql p c bp = ret 0" "sigma_total c = 0.005"
  shows "compute_greeks rolling_ql p c w =
     (Inr \<lparr>dv01 = 0, gamma_1bp = (2 - 2 * npv c) / 4, vega_1bp = 0,
           theta_1d = (if filter (\<lambda>d. d > 45001) (ex_dates p) = [] then 0
                       else 10 ^ 8 * (91 / 9125)\<^sup>2) - npv c,
           delta_hedge = 0, underlying_dv01 = - 1\<rparr>, w)"
proof -
  have u: "reprice_with_dfs rolling_ql = reprice_with_dfs example_ql"
    "swap_npv_bumped rolling_ql = swap_npv_bumped example_ql"
    "vega_bump rolling_ql = vega_bump example_ql"
    "bump_dfs rolling_ql = bump_dfs example_ql"
    by (simp_all add: rolling_ql_def discount_update)
  have b: "bump_dfs example_ql p bp = [exp (- bp / 10000)]" for bp
    by (simp add: bump_dfs_def ex_fields assms)
  have r: "bnd (reprice_with_dfs example_ql p 45000 45000 [exp x] sg) f w0
        = f (10 ^ 8 * x\<^sup>2) w0" for x sg f w0
    by (simp add: bnd_def ex_reprice_any assms)
  have t: "bnd (theta_roll rolling_ql p c) f w0
     = f ((if filter (\<lambda>d. d > 45001) (ex_dates p) = [] then 0 else 10 ^ 8 * (91 / 9125)\<^sup>2)
            - npv c) w0" for f w0
    by (simp add: bnd_def rl_theta[OF assms(1,2,4) refl])
  have n: "(100000000 * (1 / 10000)\<^sup>2 :: real) = 1" by (simp add: power2_eq_square)
  show ?thesis
    unfolding compute_greeks_def Let_def u assms b
    by (simp add: r ex_swap_any assms bnd_ret py_div_def t ret_apply n)
qed

lemma calibrate_truthy_target:
  assumes "bbg_npv p \<noteq> 0" "calibrate q p w = (Inr (p1, c), w')"
  shows "\<exists>wi wj. inverse_solve q p1 (bbg_npv p) wi = (Inr (sigma_inv c), wj) \<and>
           delta_spread c = sigma_inv c - sigma_atm c \<and> sigma_total c = sigma_inv c"
proof -
  from assms(2) obtain bk sg wa where a: "atm_stage q p w = (Inr (p1, bk, sg), wa)"
    using calibrate_Inr by blast
  have e: "bbg_npv p1 = bbg_npv p" using atm_stage_Inr[OF a] by (cases "calib_a p") auto
  then have t: "truthy (bbg_npv p1)" using assms(1) by (simp add: truthy_def)
  from assms(2) obtain p2 bk2 sg2 wb where a2: "atm_stage q p w = (Inr (p2, bk2, sg2), wb)"
    and rest: "bnd (build_berm q p2) (\<lambda>(s0, berm_atm).
     bnd (price_berm q p2 (yts_h p2) berm_atm sg2) (\<lambda>npv_atm.
       if \<not> truthy (bbg_npv p2) then
         bnd (build_berm q p2) (\<lambda>(s1, bm).
         bnd (price_berm q p2 (yts_h p2) bm sg2) (\<lambda>pv.
           ret (p2, \<lparr>basket = bk2, sigma_atm = sg2, sigma_inv = sg2,
                     delta_spread = 0, sigma_total = sg2, berm = bm, npv = pv\<rparr>)))
       else
         bnd (inverse_solve q p2 (bbg_npv p2)) (\<lambda>sg_inv.
         bnd (build_berm q p2) (\<lambda>(s1, bm).
         bnd (price_berm q p2 (yts_h p2) bm sg_inv) (\<lambda>pv.
           ret (p2, \<lparr>basket = bk2, sigma_atm = sg2, sigma_inv = sg_inv,
                     delta_spread = sg_inv - sg2, sigma_total = sg_inv,
                     berm = bm, npv = pv\<rparr>)))))) wb = (Inr (p1, c), w')"
    unfolding calibrate_def by (auto simp: bnd_eq_Inr[where m = "atm_stage q p"])
  from a a2 have p2: "p2 = p1" by simp
  from rest t show ?thesis
    unfolding p2 e
    by (auto simp: bnd_eq_Inr ret_eq split: prod.splits) blast
qed

lemma ex_calibrate_target:
  "\<exists>bk. calibrate example_ql (example_pricer\<lparr>bbg_npv := 100\<rparr>) w =
     (Inr (example_pricer\<lparr>bbg_npv := 100\<rparr>,
        \<lparr>basket = bk, sigma_atm = 1 / 10 ^ 8 + 0.005, sigma_inv = 0.007,
         delta_spread = 0.007 - (1 / 10 ^ 8 + 0.005), sigma_total = 0.007,
         berm = [1], npv = 0\<rparr>), w)"
proof -
  let ?p = "example_pricer\<lparr>bbg_npv := 100\<rparr>"
  have f: "yts_h ?p = [1]" "ex_dates ?p = [45100]" "\<not> calib_a ?p" "bbg_npv ?p = 100"
    "val_date ?p = 45000" "swap_end ?p = 46825" "vol_mat ?p = [[0.005]]"
    "exp_grid ?p = [1]" "tnr_grid ?p = [5]"
    by (simp_all add: example_pricer_def)
  have bk: "\<exists>bk. build_basket example_ql ?p 0 = ret bk"
    by (simp add: build_basket_def ex_fields f bnd_ret Let_def
        vol_interp_def mat_at_def ebind_def bnd_lift_Inr) blast
  then obtain bk where bk: "build_basket example_ql ?p 0 = ret bk" by blast
  have a: "atm_stage example_ql ?p = ret (?p, bk, 1 / 10 ^ 8 + 0.005)"
    by (simp add: atm_stage_def bk bnd_ret f ex_calib_atm)
  have b: "build_berm example_ql ?p = ret ([1], [1])"
    by (simp add: build_berm_def ex_fields f bnd_ret)
  have pb: "price_berm example_ql ?p h [1] sg = ret 0" for h sg
    by (simp add: price_berm_def ex_fields)
  have fi: "inverse_f example_ql ?p 100 x = ret (- 100)" for x
    by (simp add: inverse_f_def b bnd_ret pb f)
  have br: "brentq example_ql lo hi = Eval lo (\<lambda>flo. Eval hi (\<lambda>fhi.
                 if flo * fhi > 0
                 then Return (Inl (ValueError ''f(a) and f(b) must have different signs''))
                 else Return (Inr lo)))" for lo hi
    by (simp add: example_ql_def)
  have th: "bnd (lift (Inl e)) g = throw e" for e and g :: "real \<Rightarrow> (unit, real) io"
    by (simp add: bnd_def lift_def throw_def)
  have iv: "inverse_solve example_ql ?p 100 = ret 0.007"
    by (simp add: inverse_solve_def br fi bnd_ret th try_except_throw ex_fields)
  have z: "truthy (bbg_npv ?p)" by (simp add: truthy_def f)
  show ?thesis
    by (rule exI[of _ bk]) (simp add: calibrate_def a bnd_ret b pb f iv ret_apply truthy_def)
qed

lemma cli_absent: "cli_calibrate q p None w =
    (Inl (ValueError ''benchmark.npv is required in config''), w)"
  by (simp add: cli_calibrate_def fetch_bbg_npv_def bnd_def lift_def)

lemma cli_supplied: "cli_calibrate q p (Some v) = calibrate q (p\<lparr>bbg_npv := v\<rparr>)"
  by (simp add: cli_calibrate_def fetch_bbg_npv_def bnd_lift_Inr)

lemma api_absent: "api_calibrate q p None = calibrate q (p\<lparr>bbg_npv := 0\<rparr>)"
  by (simp add: api_calibrate_def api_bbg_npv_def)

lemma api_supplied: "api_calibrate q p (Some v) = calibrate q (p\<lparr>bbg_npv := v\<rparr>)"
  by (simp add: api_calibrate_def api_bbg_npv_def)

subsection \<open>Rounding to double precision\<close>

lemma binade_iff: "0 < r \<Longrightarrow> binade r = k \<longleftrightarrow> 2 powi k \<le> r \<and> r < 2 powi (k + 1)"
proof -
  assume r: "0 < r"
  have "\<lfloor>log 2 r\<rfloor> = k \<longleftrightarrow> 2 powr (of_int k) \<le> r \<and> r < 2 powr (of_int (k + 1))"
    using r by (intro floor_log_eq_powr_iff) simp_all
  moreover have "(2::real) powr (of_int k) = 2 powi k"
    by (rule powr_real_of_int') simp_all
  moreover have "(2::real) powr (of_int (k + 1)) = 2 powi (k + 1)"
    by (rule powr_real_of_int') simp_all
  moreover have "\<bar>r\<bar> = r" using r by simp
  ultimately show ?thesis unfolding binade_def by simp
qed






lemma fl_at:
  assumes "0 < r" "2 powi k \<le> r" "r < 2 powi (k + 1)" "- 1022 \<le> k"
  shows "fl r = of_int (round_even (r / 2 powi (k - 52))) * 2 powi (k - 52)"
proof -
  have "binade r = k" using binade_iff[OF assms(1)] assms(2,3) by simp
  then have "expo r = k" using assms(4) by (simp add: expo_def)
  then show ?thesis using assms(1) by (simp add: fl_def Let_def)
qed





lemma fl_1: "fl 1 = 1"
  using fl_at[of 1 0] by (simp add: round_even_def power_int_minus)

lemma fl_2: "fl 2 = 2"
  using fl_at[of 2 1] by (simp add: round_even_def power_int_minus)

lemma fl_half: "fl (1 / 2) = 1 / 2"
  using fl_at[of "1 / 2" "- 1"] by (simp add: round_even_def power_int_minus)

lemma fl_A_MIN: "fl A_MIN = 4611686018427388 / 2 ^ 62"
  using fl_at[of "1 / 1000" "- 10"]
  by (simp add: A_MIN_def round_even_def power_int_minus Let_def)

lemma fl_A_MAX: "fl A_MAX = 1 / 2"
  using fl_half by (simp add: A_MAX_def)

lemma fl_span: "fl (1 / 2 - 4611686018427388 / 2 ^ 62) = 8989184856231510 / 2 ^ 54"
  using fl_at[of "1 / 2 - 4611686018427388 / 2 ^ 62" "- 2"]
  by (simp add: round_even_def power_int_minus Let_def)









lemma fl_mid_half: "fl (8989184856231510 / 2 ^ 55) = 8989184856231510 / 2 ^ 55"
  using fl_at[of "8989184856231510 / 2 ^ 55" "- 3"]
  by (simp add: round_even_def power_int_minus Let_def)

lemma fl_mid: "fl (4611686018427388 / 2 ^ 62 + 8989184856231510 / 2 ^ 55) = 4512606826625237 / 2 ^ 54"
  using fl_at[of "4611686018427388 / 2 ^ 62 + 8989184856231510 / 2 ^ 55" "- 2"]
  by (simp add: round_even_def power_int_minus Let_def)








lemma dbl_span: "fl (fl A_MAX - fl A_MIN) = 8989184856231510 / 2 ^ 54"
  unfolding fl_A_MAX fl_A_MIN by (rule fl_span)

lemma inv_logit_from_eq:
  "inv_logit_from e =
     fl (4611686018427388 / 2 ^ 62 + fl (fl (1 / fl (1 + e)) * (8989184856231510 / 2 ^ 54)))"
  unfolding inv_logit_from_def Let_def dbl_span unfolding fl_A_MIN ..





lemma no_overflow_below_one: "y \<le> 0 \<Longrightarrow> math_exp y = Inr (fl (exp y))"
proof -
  assume "y \<le> 0"
  then have "exp y \<le> 1" by simp
  moreover have "(1 :: real) < 2 ^ 1024 - 2 ^ 970" by simp
  ultimately have "\<not> 2 ^ 1024 - 2 ^ 970 \<le> exp y" by linarith
  then show ?thesis by (simp add: math_exp_def)
qed









lemma math_exp_0: "math_exp 0 = Inr 1"
  using no_overflow_below_one[of 0] by (simp add: fl_1)

lemma inv_logit_d_0: "inv_logit_d 0 = Inr (4512606826625237 / 2 ^ 54)"
proof -
  have s1: "fl (1 + 1) = 2" by (simp add: fl_2)
  have s3: "(1 / 2) * (8989184856231510 / 2 ^ 54) = (8989184856231510 / 2 ^ 55 :: real)" by simp
  have "inv_logit_from 1 = 4512606826625237 / 2 ^ 54"
    unfolding inv_logit_from_eq s1 fl_half s3 fl_mid_half fl_mid ..
  then show ?thesis by (simp add: inv_logit_d_def math_exp_0 ebind_def)
qed



























section \<open>Claims on the closed-form prices and the interpolator\<close>

text \<open>
  C6. Put-call parity of the closed-form basket prices: for every forward, strike,
  volatility, time to expiry and annuity, the receiver price minus the payer price is
  \<open>annuity \<cdot> (K - F)\<close>, in the normal-formula branch and in the intrinsic-value branch.
\<close>

theorem bachelier_put_call_parity:
  "bachelier_receiver F K sigma T annuity - bachelier_payer F K sigma T annuity = annuity * (K - F)"
proof (cases "sigma \<le> 0 \<or> T \<le> 0")
  case True
  then show ?thesis
    by (auto simp: bachelier_receiver_def bachelier_payer_def max_def algebra_simps)
next
  case False
  define d where "d = (F - K) / (sigma * sqrt T)"
  have e: "erf (- d / sqrt 2) = - erf (d / sqrt 2)"
    using erf_minus[of "d / sqrt 2"] by simp
  show ?thesis
    using False e
    by (simp add: bachelier_receiver_def bachelier_payer_def Let_def d_def algebra_simps)
qed

theorem bachelier_put_call_parity_witness:
  "bachelier_receiver 0.03 0.04 0.005 2 100 - bachelier_payer 0.03 0.04 0.005 2 100
     = 100 * (0.04 - 0.03)
   \<and> bachelier_receiver 0.03 0.04 0 2 100 - bachelier_payer 0.03 0.04 0 2 100
     = 100 * (0.04 - 0.03)"
  using bachelier_put_call_parity[of "0.03" "0.04" "0.005" 2 100]
    bachelier_put_call_parity[of "0.03" "0.04" 0 2 100]
  by simp

text \<open>
  C7. On strictly increasing expiry and tenor grids, with a matrix that has one row per
  expiry and one column per tenor, a query at the grid point \<open>(expiry_grid[i], tenor_grid[j])\<close>
  returns the stored value \<open>vol_mat[i, j]\<close>.
\<close>

theorem vol_interp_on_grid_point:
  assumes "sorted_wrt (<) eg" "sorted_wrt (<) tg"
    and "length vm = length eg" "\<forall>row \<in> set vm. length row = length tg"
    and "i < length eg" "j < length tg"
  shows "vol_interp (eg ! i) (tg ! j) vm eg tg = Inr (vm ! i ! j)"
proof -
  define xc where "xc = np_clip (eg ! i) (hd eg) (last eg)"
  define yc where "yc = np_clip (tg ! j) (hd tg) (last tg)"
  define i1 where "i1 = min (searchsorted eg xc) (length eg - 1)"
  define j1 where "j1 = min (searchsorted tg yc) (length tg - 1)"
  define i0 where "i0 = nat (max (int i1 - 1) 0)"
  define j0 where "j0 = nat (max (int j1 - 1) 0)"
  define wx where "wx = (if eg ! i1 = eg ! i0 then 0 else (xc - eg ! i0) / (eg ! i1 - eg ! i0))"
  define wy where "wy = (if tg ! j1 = tg ! j0 then 0 else (yc - tg ! j0) / (tg ! j1 - tg ! j0))"
  have ax: "i1 = i \<and> i0 < length eg \<and> ((i0 = i \<and> wx = 0) \<or> wx = 1)"
    by (rule axis_at[OF assms(1) assms(5) xc_def i1_def i0_def wx_def])
  have ay: "j1 = j \<and> j0 < length tg \<and> ((j0 = j \<and> wy = 0) \<or> wy = 1)"
    by (rule axis_at[OF assms(2) assms(6) yc_def j1_def j0_def wy_def])
  have ne: "eg \<noteq> []" "tg \<noteq> []" using assms(5,6) by auto
  have m: "mat_at vm a b = Inr (vm ! a ! b)" if "a < length eg" "b < length tg" for a b
    using assms(3,4) that by (simp add: mat_at_def)
  have m00: "mat_at vm i0 j0 = Inr (vm ! i0 ! j0)" using ax ay by (intro m) auto
  have m10: "mat_at vm i1 j0 = Inr (vm ! i1 ! j0)" using ax ay assms(5) by (intro m) auto
  have m01: "mat_at vm i0 j1 = Inr (vm ! i0 ! j1)" using ax ay assms(6) by (intro m) auto
  have m11: "mat_at vm i1 j1 = Inr (vm ! i1 ! j1)" using ax ay assms(5,6) by (intro m) auto
  have v: "vol_interp (eg ! i) (tg ! j) vm eg tg =
        Inr ((1 - wy) * ((1 - wx) * (vm ! i0 ! j0) + wx * (vm ! i1 ! j0))
             + wy * ((1 - wx) * (vm ! i0 ! j1) + wx * (vm ! i1 ! j1)))"
    unfolding vol_interp_def Let_def
      xc_def[symmetric] yc_def[symmetric] i1_def[symmetric] j1_def[symmetric]
      i0_def[symmetric] j0_def[symmetric] wx_def[symmetric] wy_def[symmetric]
    using ne by (simp add: m00 m10 m01 m11 ebind_def)
  have "(1 - wy) * ((1 - wx) * (vm ! i0 ! j0) + wx * (vm ! i1 ! j0))
             + wy * ((1 - wx) * (vm ! i0 ! j1) + wx * (vm ! i1 ! j1)) = vm ! i ! j"
    using ax ay by auto
  with v show ?thesis by simp
qed


theorem vol_interp_on_grid_point_witness:
  "vol_interp 2 1 [[10, 20], [30, 40]] [1, 2] [1, 5] = Inr 30"
  using vol_interp_on_grid_point[of "[1, 2]" "[1, 5]" "[[10, 20], [30, 40]]" 1 0]
  by simp

section \<open>Claims on the Greek engine\<close>

text \<open>
  What \<^verbatim>\<open>compute_greeks\<close> returns as Gamma, for every run that returns: the centred second
  difference of the two prices repriced under the curve bumped by plus and minus the
  \<^emph>\<open>DV01\<close> bump size, around the base price, divided by the square of the \<^emph>\<open>Gamma\<close> bump
  size.
\<close>

lemma compute_greeks_gamma:
  assumes "compute_greeks q p c w = (Inr g, w')"
  shows "\<exists>pu pd w1 w2.
           reprice_with_dfs q p (val_date p) (val_date p) (bump_dfs q p (dv01_bp p))
             (sigma_total c) w = (Inr pu, w1) \<and>
           reprice_with_dfs q p (val_date p) (val_date p) (bump_dfs q p (- dv01_bp p))
             (sigma_total c) w1 = (Inr pd, w2) \<and>
           gamma_1bp g = (pu - 2 * npv c + pd) / (gamma_bp p)\<^sup>2"
  using greeks_Inr[OF assms] by metis

text \<open>
  C1. Gamma is claimed to be \<open>(P+ - 2 P0 + P-) / h\<^sup>2\<close> with \<open>P+\<close>, \<open>P-\<close> repriced under the curve
  bumped by plus and minus the Gamma bump size \<open>h\<close>. On the concrete market, with a DV01
  bump of 1bp and a Gamma bump of 2bp, \<^verbatim>\<open>compute_greeks\<close> returns Gamma \<open>= 1/2\<close>, while the
  prices under the curve bumped by \<open>\<plusminus>2bp\<close> are both 4 and the base price is 0, so the
  claimed value is \<open>(4 - 0 + 4) / 4 = 2\<close>.
\<close>

theorem gamma_mixes_bump_sizes:
  "compute_greeks example_ql example_pricer example_calibration \<lparr>evaluationDate = 45000\<rparr>
     = (Inr \<lparr>dv01 = 0, gamma_1bp = 1 / 2, vega_1bp = 0, theta_1d = 0, delta_hedge = 0,
             underlying_dv01 = - 1\<rparr>, \<lparr>evaluationDate = 45000\<rparr>)
   \<and> dv01_bp example_pricer = 1 \<and> gamma_bp example_pricer = 2
   \<and> npv example_calibration = 0
   \<and> reprice_with_dfs example_ql example_pricer 45000 45000
         (bump_dfs example_ql example_pricer (gamma_bp example_pricer)) 0.005
         \<lparr>evaluationDate = 45000\<rparr> = (Inr 4, \<lparr>evaluationDate = 45000\<rparr>)
   \<and> reprice_with_dfs example_ql example_pricer 45000 45000
         (bump_dfs example_ql example_pricer (- gamma_bp example_pricer)) 0.005
         \<lparr>evaluationDate = 45000\<rparr> = (Inr 4, \<lparr>evaluationDate = 45000\<rparr>)
   \<and> (4 - 2 * npv example_calibration + 4) / (gamma_bp example_pricer)\<^sup>2 \<noteq> (1 / 2 :: real)"
proof -
  have n: "(100000000 * (1 / 5000)\<^sup>2 :: real) = 4" by (simp add: power2_eq_square)
  show ?thesis
    by (simp add: ex_greeks ex_pricer ex_calibration ex_bump ex_reprice_any n)
qed

text \<open>
  C3. Repricing recomputes the live exercise dates as those strictly after the supplied
  evaluation date; once the swap is built, the result is exactly 0 when none is left and
  the oracle's price on the live dates otherwise. The Theta roll returns exactly when the
  rescaled discount factors are obtained and the repricing at the day after the valuation
  date returns, and its value is that repricing minus the base price. So the Theta that
  \<^verbatim>\<open>compute_greeks\<close> returns is the oracle's price on the exercise dates strictly after
  that day, under the rolled curve, minus \<open>npv\<close>; and \<open>0 - npv\<close> when no such date is left.
\<close>

theorem reprice_exercise_depletion:
  "(ql_build_swap q ref (node_dates p) dfs (w\<lparr>evaluationDate := ev\<rparr>) = (Inr (h, s), w1) \<longrightarrow>
      fst (reprice_with_dfs q p ref ev dfs sg w) =
        (if filter (\<lambda>d. d > ev) (ex_dates p) = [] then Inr 0
         else fst (bnd (ql_berm_swaption q s (filter (\<lambda>d. d > ev) (ex_dates p)))
                     (\<lambda>sw. price_berm q p h sw sg) w1)))
   \<and> (filter (\<lambda>d. d > ev) (ex_dates p) = [] \<and>
        reprice_with_dfs q p ref ev dfs sg w = (Inr v, w') \<longrightarrow> v = 0)
   \<and> (do_theta p \<and> filter (\<lambda>d. d > val_date p + 1) (ex_dates p) = [] \<and>
        compute_greeks q p c w = (Inr g, w') \<longrightarrow> theta_1d g = 0 - npv c)
   \<and> (theta_roll q p c w = (Inr th, w') \<longleftrightarrow>
        (\<exists>dfn wa tdfs wb pt.
           ql_discount q (yts_h p) (val_date p + 1) w = (Inr dfn, wa) \<and>
           mapM (\<lambda>d. bnd (ql_discount q (yts_h p) d) (\<lambda>v. py_div v dfn)) (node_dates p) wa
             = (Inr tdfs, wb) \<and>
           reprice_with_dfs q p (val_date p + 1) (val_date p + 1) tdfs (sigma_total c) wb
             = (Inr pt, w') \<and>
           th = pt - npv c))
   \<and> (do_theta p \<and> compute_greeks q p c w = (Inr g, w') \<longrightarrow>
        (\<exists>wt dfn wa tdfs wb pt hh ss wc.
           ql_discount q (yts_h p) (val_date p + 1) wt = (Inr dfn, wa) \<and>
           mapM (\<lambda>d. bnd (ql_discount q (yts_h p) d) (\<lambda>v. py_div v dfn)) (node_dates p) wa
             = (Inr tdfs, wb) \<and>
           ql_build_swap q (val_date p + 1) (node_dates p) tdfs
               (wb\<lparr>evaluationDate := val_date p + 1\<rparr>) = (Inr (hh, ss), wc) \<and>
           (if filter (\<lambda>d. d > val_date p + 1) (ex_dates p) = [] then pt = 0
            else \<exists>wd. bnd (ql_berm_swaption q ss
                              (filter (\<lambda>d. d > val_date p + 1) (ex_dates p)))
                          (\<lambda>sw. price_berm q p hh sw (sigma_total c)) wc = (Inr pt, wd)) \<and>
           theta_1d g = pt - npv c))"
proof (intro conjI impI)
  assume "ql_build_swap q ref (node_dates p) dfs (w\<lparr>evaluationDate := ev\<rparr>) = (Inr (h, s), w1)"
  then show "fst (reprice_with_dfs q p ref ev dfs sg w) =
        (if filter (\<lambda>d. d > ev) (ex_dates p) = [] then Inr 0
         else fst (bnd (ql_berm_swaption q s (filter (\<lambda>d. d > ev) (ex_dates p)))
                     (\<lambda>sw. price_berm q p h sw sg) w1))"
    by (rule reprice_after_build)
next
  assume "filter (\<lambda>d. d > ev) (ex_dates p) = [] \<and>
        reprice_with_dfs q p ref ev dfs sg w = (Inr v, w')"
  then show "v = 0" using reprice_no_live_dates by blast
next
  assume a: "do_theta p \<and> filter (\<lambda>d. d > val_date p + 1) (ex_dates p) = [] \<and>
        compute_greeks q p c w = (Inr g, w')"
  then obtain wt where "theta_roll q p c wt = (Inr (theta_1d g), w')"
    using greeks_theta[of p q c w g w'] by blast
  with a show "theta_1d g = 0 - npv c" using theta_roll_expired by blast
next
  show "theta_roll q p c w = (Inr th, w') \<longleftrightarrow>
        (\<exists>dfn wa tdfs wb pt.
           ql_discount q (yts_h p) (val_date p + 1) w = (Inr dfn, wa) \<and>
           mapM (\<lambda>d. bnd (ql_discount q (yts_h p) d) (\<lambda>v. py_div v dfn)) (node_dates p) wa
             = (Inr tdfs, wb) \<and>
           reprice_with_dfs q p (val_date p + 1) (val_date p + 1) tdfs (sigma_total c) wb
             = (Inr pt, w') \<and>
           th = pt - npv c)"
    by (rule theta_roll_Inr_iff)
next
  assume a: "do_theta p \<and> compute_greeks q p c w = (Inr g, w')"
  then obtain wt where t: "theta_roll q p c wt = (Inr (theta_1d g), w')"
    using greeks_theta[of p q c w g w'] by blast
  from t[unfolded theta_roll_Inr_iff] obtain dfn wa tdfs wb pt where
    d: "ql_discount q (yts_h p) (val_date p + 1) wt = (Inr dfn, wa)"
    and m: "mapM (\<lambda>d. bnd (ql_discount q (yts_h p) d) (\<lambda>v. py_div v dfn)) (node_dates p) wa
             = (Inr tdfs, wb)"
    and r: "reprice_with_dfs q p (val_date p + 1) (val_date p + 1) tdfs (sigma_total c) wb
             = (Inr pt, w')"
    and th: "theta_1d g = pt - npv c" by blast
  from r[unfolded reprice_Inr_iff] obtain hh ss wc where
    b: "ql_build_swap q (val_date p + 1) (node_dates p) tdfs
               (wb\<lparr>evaluationDate := val_date p + 1\<rparr>) = (Inr (hh, ss), wc)"
    and i: "if filter (\<lambda>d. d > val_date p + 1) (ex_dates p) = []
         then pt = 0 \<and> w' = wc\<lparr>evaluationDate := evaluationDate wb\<rparr>
         else \<exists>w2. bnd (ql_berm_swaption q ss (filter (\<lambda>d. d > val_date p + 1) (ex_dates p)))
                      (\<lambda>sw. price_berm q p hh sw (sigma_total c)) wc = (Inr pt, w2) \<and>
                    w' = w2\<lparr>evaluationDate := evaluationDate wb\<rparr>" by blast
  have i': "if filter (\<lambda>d. d > val_date p + 1) (ex_dates p) = [] then pt = 0
            else \<exists>wd. bnd (ql_berm_swaption q ss
                              (filter (\<lambda>d. d > val_date p + 1) (ex_dates p)))
                          (\<lambda>sw. price_berm q p hh sw (sigma_total c)) wc = (Inr pt, wd)"
    using i by (auto split: if_splits)
  show "\<exists>wt dfn wa tdfs wb pt hh ss wc.
           ql_discount q (yts_h p) (val_date p + 1) wt = (Inr dfn, wa) \<and>
           mapM (\<lambda>d. bnd (ql_discount q (yts_h p) d) (\<lambda>v. py_div v dfn)) (node_dates p) wa
             = (Inr tdfs, wb) \<and>
           ql_build_swap q (val_date p + 1) (node_dates p) tdfs
               (wb\<lparr>evaluationDate := val_date p + 1\<rparr>) = (Inr (hh, ss), wc) \<and>
           (if filter (\<lambda>d. d > val_date p + 1) (ex_dates p) = [] then pt = 0
            else \<exists>wd. bnd (ql_berm_swaption q ss
                              (filter (\<lambda>d. d > val_date p + 1) (ex_dates p)))
                          (\<lambda>sw. price_berm q p hh sw (sigma_total c)) wc = (Inr pt, wd)) \<and>
           theta_1d g = pt - npv c"
    using d m b i' th by blast
qed

theorem reprice_exercise_depletion_witness:
  "(\<exists>g. compute_greeks rolling_ql expired_pricer expired_calibration \<lparr>evaluationDate = 45000\<rparr>
            = (Inr g, \<lparr>evaluationDate = 45000\<rparr>) \<and> theta_1d g = 0 - 250)
   \<and> (\<exists>g. compute_greeks rolling_ql example_pricer example_calibration \<lparr>evaluationDate = 45000\<rparr>
            = (Inr g, \<lparr>evaluationDate = 45000\<rparr>) \<and> theta_1d g = 10 ^ 8 * (91 / 9125)\<^sup>2 - 0)
   \<and> fst (reprice_with_dfs rolling_ql expired_pricer 45001 45001 [exp (- (91 / 9125))] 0.005
            \<lparr>evaluationDate = 45000\<rparr>) = Inr 0
   \<and> fst (reprice_with_dfs rolling_ql example_pricer 45001 45001 [exp (- (91 / 9125))] 0.005
            \<lparr>evaluationDate = 45000\<rparr>) = Inr (10 ^ 8 * (91 / 9125)\<^sup>2)"
proof -
  let ?w = "\<lparr>evaluationDate = 45000\<rparr>"
  let ?ge = "\<lparr>dv01 = 0, gamma_1bp = (2 - 2 * npv expired_calibration) / 4, vega_1bp = 0,
           theta_1d = (if filter (\<lambda>d. d > 45001) (ex_dates expired_pricer) = [] then 0
                       else 10 ^ 8 * (91 / 9125)\<^sup>2) - npv expired_calibration,
           delta_hedge = 0, underlying_dv01 = - 1\<rparr>"
  let ?gl = "\<lparr>dv01 = 0, gamma_1bp = (2 - 2 * npv example_calibration) / 4, vega_1bp = 0,
           theta_1d = (if filter (\<lambda>d. d > 45001) (ex_dates example_pricer) = [] then 0
                       else 10 ^ 8 * (91 / 9125)\<^sup>2) - npv example_calibration,
           delta_hedge = 0, underlying_dv01 = - 1\<rparr>"
  have ge: "compute_greeks rolling_ql expired_pricer expired_calibration ?w = (Inr ?ge, ?w)"
    by (rule rl_greeks) (simp_all add: exp_pricer exp_vega exp_calibration)
  have gl: "compute_greeks rolling_ql example_pricer example_calibration ?w = (Inr ?gl, ?w)"
    by (rule rl_greeks) (simp_all add: ex_pricer ex_vega ex_calibration)
  have dep: "do_theta expired_pricer \<and>
      filter (\<lambda>d. d > val_date expired_pricer + 1) (ex_dates expired_pricer) = [] \<and>
      compute_greeks rolling_ql expired_pricer expired_calibration ?w = (Inr ?ge, ?w)"
    using ge by (simp add: exp_pricer)
  have t1: "theta_1d ?ge = 0 - npv expired_calibration"
    by (rule reprice_exercise_depletion[where q = rolling_ql and p = expired_pricer
        and c = expired_calibration and w = ?w and w' = ?w and g = ?ge,
        THEN conjunct2, THEN conjunct2, THEN conjunct1, THEN mp, OF dep])
  have u: "reprice_with_dfs rolling_ql = reprice_with_dfs example_ql"
    by (simp add: rolling_ql_def discount_update)
  have c1: "\<exists>g. compute_greeks rolling_ql expired_pricer expired_calibration ?w = (Inr g, ?w)
      \<and> theta_1d g = 0 - 250"
    using ge t1 by (intro exI[of _ ?ge]) (simp add: exp_calibration)
  have c2: "\<exists>g. compute_greeks rolling_ql example_pricer example_calibration ?w = (Inr g, ?w)
      \<and> theta_1d g = 10 ^ 8 * (91 / 9125)\<^sup>2 - 0"
    using gl by (intro exI[of _ ?gl]) (simp add: ex_pricer ex_calibration)
  have c3: "fst (reprice_with_dfs rolling_ql expired_pricer 45001 45001 [exp (- (91 / 9125))] 0.005
            ?w) = Inr 0"
    by (simp add: u ex_reprice_any exp_pricer)
  have c4: "fst (reprice_with_dfs rolling_ql example_pricer 45001 45001 [exp (- (91 / 9125))] 0.005
            ?w) = Inr (10 ^ 8 * (91 / 9125)\<^sup>2)"
    by (simp add: u ex_reprice_any ex_pricer)
  show ?thesis by (rule conjI[OF c1 conjI[OF c2 conjI[OF c3 c4]]])
qed

text \<open>
  C9. \<^verbatim>\<open>_reprice_with_dfs\<close> leaves the global evaluation date as it found it, whether the
  repricing returns or raises and whatever the external calls did to it; and what it returns
  does not depend on the evaluation date it found, since the external calls run under the
  supplied date.
\<close>

theorem reprice_restores_evaluation_date:
  "evaluationDate (snd (reprice_with_dfs q p ref ev dfs sg w)) = evaluationDate w
   \<and> fst (reprice_with_dfs q p ref ev dfs sg (w\<lparr>evaluationDate := d\<rparr>))
       = fst (reprice_with_dfs q p ref ev dfs sg w)"
  by (simp add: reprice_with_dfs_def try_finally_def Let_def split: prod.splits)

theorem reprice_restores_evaluation_date_witness:
  "reprice_with_dfs failing_ql example_pricer 45000 45000 [1] 0.005 \<lparr>evaluationDate = 44000\<rparr>
     = (Inl QLError, \<lparr>evaluationDate = 44000\<rparr>)
   \<and> reprice_with_dfs example_ql example_pricer 45000 45000 [1] 0.005 \<lparr>evaluationDate = 44000\<rparr>
     = (Inr 0, \<lparr>evaluationDate = 44000\<rparr>)"
  using reprice_restores_evaluation_date[of failing_ql example_pricer 45000 45000 "[1]" "0.005"
      "\<lparr>evaluationDate = 44000\<rparr>" 0]
    fail_reprice[of "[1]" "0.005" "\<lparr>evaluationDate = 44000\<rparr>"]
    ex_reprice_any[of example_pricer 45000 45000 0 "0.005" "\<lparr>evaluationDate = 44000\<rparr>"]
  by (simp add: ex_pricer)

section \<open>Claims on calibration\<close>

text \<open>
  The joint fit never raises: its objective turns every exception of the oracle into the
  score \<open>10\<^sup>20\<close>, and the search then returns.
\<close>

lemma calib_joint_recovers:
  "(bnd (ql_hw_engine q h (inv_logit (fst x)) (1 / 10 ^ 8 + exp (snd x)))
      (\<lambda>eng. sq_err_sum q eng bk 0) w = (Inl e, w1)
     \<longrightarrow> obj_joint q h bk x w = (Inr (10 ^ 20), w1))
   \<and> (\<exists>r w'. calib_joint q h bk w = (Inr r, w'))"
  using obj_joint_scores_failure[of q h x bk w e w1] calib_joint_total[of q h bk w] by blast

text \<open>
  C2. Every one of the three calibration procedures is claimed to score a failing trial
  point as an infinite objective and to go on. With an oracle that raises, the ATM fit
  raises at its first trial point, and so does \<^verbatim>\<open>calibrate\<close>; the inverse fit catches the
  failure inside the root finder, and its fallback search raises. Only the joint fit scores
  the point \<open>10\<^sup>20\<close> and returns.
\<close>

theorem atm_fit_propagates_oracle_failure:
  "calib_sigma_atm failing_ql example_pricer [1] [] \<lparr>evaluationDate = 45000\<rparr>
     = (Inl QLError, \<lparr>evaluationDate = 45000\<rparr>)
   \<and> calibrate failing_ql example_pricer \<lparr>evaluationDate = 45000\<rparr>
     = (Inl QLError, \<lparr>evaluationDate = 45000\<rparr>)
   \<and> inverse_solve failing_ql example_pricer 100 \<lparr>evaluationDate = 45000\<rparr>
     = (Inl QLError, \<lparr>evaluationDate = 0\<rparr>)
   \<and> obj_joint failing_ql [1] [] (logit 0.03, ln 0.005) \<lparr>evaluationDate = 45000\<rparr>
     = (Inr (10 ^ 20), \<lparr>evaluationDate = 45000\<rparr>)
   \<and> calib_joint failing_ql [1] [] \<lparr>evaluationDate = 45000\<rparr>
     = (Inr (0.03, 1 / 10 ^ 8 + 0.005), \<lparr>evaluationDate = 45000\<rparr>)"
  by (simp add: fail_calib_atm fail_calibrate fail_inverse fail_obj_joint fail_calib_joint
      ret_apply inv_logit_seed)



text \<open>
  C10. A target supplied as 0.0 takes the no-target path, at either entry: \<^verbatim>\<open>calibrate\<close>
  runs the ATM stage, stores that stage's volatility as ATM, inverse and total volatility,
  a spread of 0 and the oracle's price at the total volatility, and never consults the root
  finder; any non-zero target runs the inverse fit. The test is on the value: the web
  interface turns an absent target into 0, which then behaves the same, whereas
  \<^verbatim>\<open>fetch_all\<close> raises on an absent target before the pricer exists.
\<close>

theorem zero_target_takes_no_target_path:
  "api_calibrate q p None = api_calibrate q p (Some 0)
   \<and> cli_calibrate q p (Some 0) = api_calibrate q p (Some 0)
   \<and> cli_calibrate q p None w = (Inl (ValueError ''benchmark.npv is required in config''), w)
   \<and> (api_calibrate q p (Some 0) w = (Inr (p1, c), w') \<longrightarrow>
        (\<exists>bk wa. atm_stage q (p\<lparr>bbg_npv := 0\<rparr>) w = (Inr (p1, bk, sigma_atm c), wa)) \<and>
        sigma_inv c = sigma_atm c \<and> delta_spread c = 0 \<and> sigma_total c = sigma_atm c \<and>
        (\<exists>w2. price_berm q p1 (yts_h p1) (berm c) (sigma_total c) w2 = (Inr (npv c), w')))
   \<and> api_calibrate (q\<lparr>brentq := b\<rparr>) p (Some 0) w = api_calibrate q p (Some 0) w
   \<and> (v \<noteq> 0 \<and> api_calibrate q p (Some v) w = (Inr (p1, c), w') \<longrightarrow>
        (\<exists>wi wj. inverse_solve q p1 v wi = (Inr (sigma_inv c), wj)) \<and>
        delta_spread c = sigma_inv c - sigma_atm c \<and> sigma_total c = sigma_inv c)"
proof -
  have z: "bbg_npv (p\<lparr>bbg_npv := 0\<rparr>) = 0" by simp
  have c1: "api_calibrate q p None = api_calibrate q p (Some 0)"
    by (simp add: api_absent api_supplied)
  have c2: "cli_calibrate q p (Some 0) = api_calibrate q p (Some 0)"
    by (simp add: cli_supplied api_supplied)
  have c3: "cli_calibrate q p None w = (Inl (ValueError ''benchmark.npv is required in config''), w)"
    by (rule cli_absent)
  have c4: "api_calibrate q p (Some 0) w = (Inr (p1, c), w') \<longrightarrow>
        (\<exists>bk wa. atm_stage q (p\<lparr>bbg_npv := 0\<rparr>) w = (Inr (p1, bk, sigma_atm c), wa)) \<and>
        sigma_inv c = sigma_atm c \<and> delta_spread c = 0 \<and> sigma_total c = sigma_atm c \<and>
        (\<exists>w2. price_berm q p1 (yts_h p1) (berm c) (sigma_total c) w2 = (Inr (npv c), w'))"
  proof
    assume "api_calibrate q p (Some 0) w = (Inr (p1, c), w')"
    then have "calibrate q (p\<lparr>bbg_npv := 0\<rparr>) w = (Inr (p1, c), w')"
      by (simp add: api_supplied)
    from calibrate_falsy_target[OF z this]
    show "(\<exists>bk wa. atm_stage q (p\<lparr>bbg_npv := 0\<rparr>) w = (Inr (p1, bk, sigma_atm c), wa)) \<and>
        sigma_inv c = sigma_atm c \<and> delta_spread c = 0 \<and> sigma_total c = sigma_atm c \<and>
        (\<exists>w2. price_berm q p1 (yts_h p1) (berm c) (sigma_total c) w2 = (Inr (npv c), w'))"
      by blast
  qed
  have c5: "api_calibrate (q\<lparr>brentq := b\<rparr>) p (Some 0) w = api_calibrate q p (Some 0) w"
    unfolding api_supplied by (rule calibrate_ignores_brentq[OF z])
  have c6: "v \<noteq> 0 \<and> api_calibrate q p (Some v) w = (Inr (p1, c), w') \<longrightarrow>
        (\<exists>wi wj. inverse_solve q p1 v wi = (Inr (sigma_inv c), wj)) \<and>
        delta_spread c = sigma_inv c - sigma_atm c \<and> sigma_total c = sigma_inv c"
  proof
    assume a: "v \<noteq> 0 \<and> api_calibrate q p (Some v) w = (Inr (p1, c), w')"
    then have nz: "bbg_npv (p\<lparr>bbg_npv := v\<rparr>) \<noteq> 0"
      and cal: "calibrate q (p\<lparr>bbg_npv := v\<rparr>) w = (Inr (p1, c), w')"
      by (simp_all add: api_supplied)
    from calibrate_truthy_target[OF nz cal]
    show "(\<exists>wi wj. inverse_solve q p1 v wi = (Inr (sigma_inv c), wj)) \<and>
        delta_spread c = sigma_inv c - sigma_atm c \<and> sigma_total c = sigma_inv c"
      by simp
  qed
  show ?thesis
    by (rule conjI[OF c1 conjI[OF c2 conjI[OF c3 conjI[OF c4 conjI[OF c5 c6]]]]])
qed

theorem zero_target_takes_no_target_path_witness:
  "(\<exists>c. api_calibrate example_ql example_pricer (Some 0) \<lparr>evaluationDate = 45000\<rparr>
          = (Inr (example_pricer, c), \<lparr>evaluationDate = 45000\<rparr>)
        \<and> sigma_inv c = sigma_atm c \<and> delta_spread c = 0 \<and> sigma_total c = sigma_atm c
        \<and> sigma_atm c = 1 / 10 ^ 8 + 0.005)
   \<and> (\<exists>c. api_calibrate example_ql example_pricer (Some 100) \<lparr>evaluationDate = 45000\<rparr>
          = (Inr (example_pricer\<lparr>bbg_npv := 100\<rparr>, c), \<lparr>evaluationDate = 45000\<rparr>)
        \<and> sigma_total c = sigma_inv c \<and> sigma_inv c = 0.007
        \<and> delta_spread c = sigma_inv c - sigma_atm c)"
proof -
  let ?w = "\<lparr>evaluationDate = 45000\<rparr>"
  have p: "example_pricer\<lparr>bbg_npv := 0\<rparr> = example_pricer"
    by (simp add: example_pricer_def)
  obtain bk where c: "calibrate example_ql example_pricer ?w =
     (Inr (example_pricer, \<lparr>basket = bk, sigma_atm = 1 / 10 ^ 8 + 0.005,
        sigma_inv = 1 / 10 ^ 8 + 0.005, delta_spread = 0, sigma_total = 1 / 10 ^ 8 + 0.005,
        berm = [1], npv = 0\<rparr>), ?w)"
    using ex_calibrate by blast
  let ?c0 = "\<lparr>basket = bk, sigma_atm = 1 / 10 ^ 8 + 0.005,
        sigma_inv = 1 / 10 ^ 8 + 0.005, delta_spread = 0, sigma_total = 1 / 10 ^ 8 + 0.005,
        berm = [1], npv = (0::real)\<rparr>"
  have a0: "api_calibrate example_ql example_pricer (Some 0) ?w = (Inr (example_pricer, ?c0), ?w)"
    using c by (simp add: api_supplied p)
  have r0: "sigma_inv ?c0 = sigma_atm ?c0 \<and> delta_spread ?c0 = 0 \<and> sigma_total ?c0 = sigma_atm ?c0"
    using zero_target_takes_no_target_path[where q = example_ql and p = example_pricer
        and w = ?w and w' = ?w and ?p1.0 = example_pricer and c = ?c0,
        THEN conjunct2, THEN conjunct2, THEN conjunct2, THEN conjunct1, THEN mp, OF a0]
    by blast
  obtain bk1 where c1: "calibrate example_ql (example_pricer\<lparr>bbg_npv := 100\<rparr>) ?w =
     (Inr (example_pricer\<lparr>bbg_npv := 100\<rparr>,
        \<lparr>basket = bk1, sigma_atm = 1 / 10 ^ 8 + 0.005, sigma_inv = 0.007,
         delta_spread = 0.007 - (1 / 10 ^ 8 + 0.005), sigma_total = 0.007,
         berm = [1], npv = 0\<rparr>), ?w)"
    using ex_calibrate_target by blast
  let ?c1 = "\<lparr>basket = bk1, sigma_atm = 1 / 10 ^ 8 + 0.005, sigma_inv = 0.007,
         delta_spread = 0.007 - (1 / 10 ^ 8 + 0.005), sigma_total = 0.007,
         berm = [1], npv = (0::real)\<rparr>"
  have a1: "(100::real) \<noteq> 0 \<and> api_calibrate example_ql example_pricer (Some 100) ?w
      = (Inr (example_pricer\<lparr>bbg_npv := 100\<rparr>, ?c1), ?w)"
    using c1 by (simp add: api_supplied)
  have r1: "delta_spread ?c1 = sigma_inv ?c1 - sigma_atm ?c1 \<and> sigma_total ?c1 = sigma_inv ?c1"
    using zero_target_takes_no_target_path[where q = example_ql and p = example_pricer
        and w = ?w and w' = ?w and ?p1.0 = "example_pricer\<lparr>bbg_npv := 100\<rparr>" and c = ?c1
        and v = 100,
        THEN conjunct2, THEN conjunct2, THEN conjunct2, THEN conjunct2, THEN conjunct2,
        THEN mp, OF a1]
    by blast
  have w0: "\<exists>c. api_calibrate example_ql example_pricer (Some 0) ?w
          = (Inr (example_pricer, c), ?w)
        \<and> sigma_inv c = sigma_atm c \<and> delta_spread c = 0 \<and> sigma_total c = sigma_atm c
        \<and> sigma_atm c = 1 / 10 ^ 8 + 0.005"
    using a0 r0 by (intro exI[of _ ?c0]) simp
  have w1: "\<exists>c. api_calibrate example_ql example_pricer (Some 100) ?w
          = (Inr (example_pricer\<lparr>bbg_npv := 100\<rparr>, c), ?w)
        \<and> sigma_total c = sigma_inv c \<and> sigma_inv c = 0.007
        \<and> delta_spread c = sigma_inv c - sigma_atm c"
    using a1 r1 by (intro exI[of _ ?c1]) simp
  show ?thesis by (rule conjI[OF w0 w1])
qed

text \<open>
  Through \<^verbatim>\<open>fetch_all\<close> an absent target and a target of 0.0 are not treated alike: the
  first is a ValueError, the second calibrates.
\<close>

theorem absent_target_differs_at_fetch:
  "cli_calibrate example_ql example_pricer None \<lparr>evaluationDate = 45000\<rparr>
     = (Inl (ValueError ''benchmark.npv is required in config''), \<lparr>evaluationDate = 45000\<rparr>)
   \<and> \<not> isl (fst (cli_calibrate example_ql example_pricer (Some 0) \<lparr>evaluationDate = 45000\<rparr>))
   \<and> cli_calibrate example_ql example_pricer (Some 0) \<lparr>evaluationDate = 45000\<rparr>
       \<noteq> cli_calibrate example_ql example_pricer None \<lparr>evaluationDate = 45000\<rparr>"
proof -
  have p: "example_pricer\<lparr>bbg_npv := 0\<rparr> = example_pricer"
    by (simp add: example_pricer_def)
  obtain bk where c: "calibrate example_ql example_pricer \<lparr>evaluationDate = 45000\<rparr> =
     (Inr (example_pricer, \<lparr>basket = bk, sigma_atm = 1 / 10 ^ 8 + 0.005,
        sigma_inv = 1 / 10 ^ 8 + 0.005, delta_spread = 0, sigma_total = 1 / 10 ^ 8 + 0.005,
        berm = [1], npv = 0\<rparr>), \<lparr>evaluationDate = 45000\<rparr>)"
    using ex_calibrate by blast
  show ?thesis
    by (simp add: cli_absent cli_supplied p c)
qed




section \<open>Claims on curve validation\<close>

text \<open>
  C8. Curve validation fails exactly when no parsed node lies strictly after the valuation
  date or a retained discount factor is not positive. Otherwise it returns the retained
  nodes; discount factors above 1.05 and increasing consecutive discount factors only add
  warnings to the result.
\<close>

theorem setup_curve_fatal_exactly_when:
  "((\<exists>e. setup_curve parse val curve = Inl e) \<longleftrightarrow>
      (filter (\<lambda>(dt, df). dt > val) (List.map_filter parse curve) = [] \<or>
       (\<exists>n \<in> set (retained_nodes val (List.map_filter parse curve)). snd n \<le> 0)))
   \<and> (\<not> (filter (\<lambda>(dt, df). dt > val) (List.map_filter parse curve) = [] \<or>
           (\<exists>n \<in> set (retained_nodes val (List.map_filter parse curve)). snd n \<le> 0)) \<longrightarrow>
        (\<exists>ws. setup_curve parse val curve =
                Inr (map fst (retained_nodes val (List.map_filter parse curve)),
                     map snd (retained_nodes val (List.map_filter parse curve)),
                     ws @ monotone_warnings (retained_nodes val (List.map_filter parse curve)))
             \<and> set ws = {DfAbove dt df |dt df.
                  (dt, df) \<in> set (retained_nodes val (List.map_filter parse curve)) \<and> df > 1.05}))"
proof (cases "filter (\<lambda>(dt, df). dt > val) (List.map_filter parse curve) = []")
  case True
  then show ?thesis by (simp add: setup_curve_def)
next
  case False
  define r where "r = retained_nodes val (List.map_filter parse curve)"
  have sc: "setup_curve parse val curve =
      ebind (validate_dfs r) (\<lambda>ws. Inr (map fst r, map snd r, ws @ monotone_warnings r))"
    using False by (simp add: setup_curve_def r_def Let_def)
  have a: "(\<exists>e. setup_curve parse val curve = Inl e) \<longleftrightarrow> (\<exists>n \<in> set r. snd n \<le> 0)"
    unfolding sc using validate_dfs_fail_iff[of r]
    by (cases "validate_dfs r") (auto simp: ebind_def)
  have b: "\<exists>ws. setup_curve parse val curve = Inr (map fst r, map snd r, ws @ monotone_warnings r)
               \<and> set ws = {DfAbove dt df |dt df. (dt, df) \<in> set r \<and> df > 1.05}"
    if "\<not> (\<exists>n \<in> set r. snd n \<le> 0)"
    using validate_dfs_ok[OF that] unfolding sc by (auto simp: ebind_def)
  have c1: "(\<exists>e. setup_curve parse val curve = Inl e) \<longleftrightarrow>
      (filter (\<lambda>(dt, df). dt > val) (List.map_filter parse curve) = [] \<or> (\<exists>n \<in> set r. snd n \<le> 0))"
    using False a by simp
  have c2: "\<not> (filter (\<lambda>(dt, df). dt > val) (List.map_filter parse curve) = [] \<or>
           (\<exists>n \<in> set r. snd n \<le> 0)) \<longrightarrow>
        (\<exists>ws. setup_curve parse val curve = Inr (map fst r, map snd r, ws @ monotone_warnings r)
               \<and> set ws = {DfAbove dt df |dt df. (dt, df) \<in> set r \<and> df > 1.05})"
    using b by blast
  show ?thesis using conjI[OF c1 c2] unfolding r_def .
qed

theorem setup_curve_fatal_exactly_when_witness:
  "setup_curve Some 45000 [(45100, 1.2), (45200, 1.3), (45000, 1), (45200, 1.25 :: real)]
     = Inr ([45100, 45200], [1.2, 1.25],
            [DfAbove 45100 1.2, DfAbove 45200 1.25, NonMonotone 45100 45200])
   \<and> (\<exists>e. setup_curve Some 45000 [(45100, 0.99), (45200, 0 :: real)] = Inl e)
   \<and> (\<exists>e. setup_curve Some 45000 [(45000, 0.99), (44000, 1 :: real)] = Inl e)"
proof -
  have a: "setup_curve Some 45000 [(45100, 1.2), (45200, 1.3), (45000, 1), (45200, 1.25 :: real)]
     = Inr ([45100, 45200], [1.2, 1.25],
            [DfAbove 45100 1.2, DfAbove 45200 1.25, NonMonotone 45100 45200])"
    by (simp add: setup_curve_def retained_nodes_def List.map_filter_def ebind_def)
  have r2: "retained_nodes 45000 (List.map_filter Some [(45100, 0.99), (45200, 0 :: real)])
      = [(45100, 0.99), (45200, 0)]"
    by (simp add: retained_nodes_def List.map_filter_def)
  have h2: "\<exists>n \<in> set (retained_nodes 45000 (List.map_filter Some [(45100, 0.99), (45200, 0 :: real)])).
          snd n \<le> 0"
    unfolding r2 by simp
  have b: "\<exists>e. setup_curve Some 45000 [(45100, 0.99), (45200, 0 :: real)] = Inl e"
    by (rule setup_curve_fatal_exactly_when[of Some 45000 "[(45100, 0.99), (45200, 0 :: real)]",
        THEN conjunct1, THEN iffD2, OF disjI2[OF h2]])
  have h3: "filter (\<lambda>(dt, df). dt > 45000)
              (List.map_filter Some [(45000 :: date, 0.99), (44000, 1 :: real)]) = []"
    by (simp add: List.map_filter_def)
  have c: "\<exists>e. setup_curve Some 45000 [(45000, 0.99), (44000, 1 :: real)] = Inl e"
    by (rule setup_curve_fatal_exactly_when[of Some 45000 "[(45000, 0.99), (44000, 1 :: real)]",
        THEN conjunct1, THEN iffD2, OF disjI1[OF h3]])
  show ?thesis using a b c by (intro conjI)
qed

end
